theory Spec2Isabelle
  imports Complex_Main
begin

section \<open>Values of the program\<close>

text \<open>
  A price in the program is a Python \<^verbatim>\<open>Decimal\<close>: an exact rational. In the store it
  is a binary float, because \<^verbatim>\<open>Database._convert_params\<close> binds every Decimal
  parameter as \<^verbatim>\<open>float(p)\<close>; a float is the rational it denotes. The conversions
  between the two are fields of the database below.
  A calendar date is its day number: SQLite compares the ISO text of two dates,
  which orders them chronologically.
\<close>

type_synonym decimal = rat
type_synonym float64 = rat
type_synonym date = int
type_synonym datetime = int

datatype exn =
    ValueError string
  | AttributeError string
  | TypeError string
  | OverflowError string
  | DatabaseError string
  | CsvError string
  | KeyError string
  | IntegrityError string
  | HTTPException nat string

fun str_exn :: "exn \<Rightarrow> string" where
  "str_exn (ValueError m) = m"
| "str_exn (AttributeError m) = m"
| "str_exn (TypeError m) = m"
| "str_exn (OverflowError m) = m"
| "str_exn (DatabaseError m) = m"
| "str_exn (CsvError m) = m"
| "str_exn (KeyError m) = m"
| "str_exn (IntegrityError m) = m"
| "str_exn (HTTPException c m) = m"

text \<open>Python truthiness of an optional string: \<^verbatim>\<open>None\<close> and \<^verbatim>\<open>""\<close> are false.\<close>

definition truthy :: "string option \<Rightarrow> bool" where
  "truthy s = (case s of None \<Rightarrow> False | Some v \<Rightarrow> v \<noteq> [])"

text \<open>\<^verbatim>\<open>a or d\<close> for an optional string \<^verbatim>\<open>a\<close> and a string \<^verbatim>\<open>d\<close>.\<close>

definition or_else :: "string option \<Rightarrow> string \<Rightarrow> string" where
  "or_else a d = (case a of None \<Rightarrow> d | Some v \<Rightarrow> if v \<noteq> [] then v else d)"

section \<open>The store\<close>

record building_row =
  b_id :: nat
  b_name :: string
  b_address :: string
  b_neighborhood_id :: "nat option"
  b_city :: string

record neighborhood_row =
  n_id :: nat
  n_name :: string

record listing_row =
  l_id :: nat
  l_mls_number :: "string option"
  l_building_id :: "nat option"
  l_unit_number :: "string option"
  l_status :: string
  l_bedrooms :: "int option"
  l_bathrooms :: "rat option"
  l_square_feet :: "int option"
  l_property_type :: "string option"
  l_listing_date :: "date option"
  l_days_on_market :: "int option"
  l_description :: "string option"
  l_listing_agent :: "string option"
  l_listing_brokerage :: "string option"
  l_source_url :: "string option"
  l_source_platform :: string
  l_is_active :: bool
  l_first_seen_at :: datetime
  l_last_seen_at :: datetime
  l_created_at :: datetime
  l_updated_at :: datetime

record price_row =
  ph_id :: nat
  ph_listing_id :: nat
  ph_price :: float64
  ph_recorded_date :: date
  ph_event_type :: string

record event_row =
  te_id :: nat
  te_listing_id :: nat
  te_event_type :: string
  te_details :: string

text \<open>A Python float: a finite value, an infinity or a NaN.\<close>

datatype pyfloat = Finite rat | Infinite | NaN

record sale_row =
  hs_id :: nat
  hs_building_id :: nat
  hs_unit_number :: "string option"
  hs_sale_price :: float64
  hs_sale_date :: string
  hs_bedrooms :: "int option"
  hs_bathrooms :: "pyfloat option"
  hs_square_feet :: "int option"
  hs_property_type :: "string option"
  hs_days_on_market :: "int option"
  hs_notes :: "string option"
  hs_data_source :: string

text \<open>
  The SQLite database behind \<^verbatim>\<open>Database\<close>: one list of rows per table, in
  rowid order. The other fields stand for what the program text does not fix:
  \<^item> \<open>faults\<close> is the fate of the statements still to come, one flag per
    statement in order; \<open>True\<close> means that SQLite raises on that statement
    (locked file, full disk), the empty list that no statement fails any more
    for such a reason;
  \<^item> \<open>ties_newest\<close> says which row \<^verbatim>\<open>ORDER BY recorded_date DESC LIMIT 1\<close>
    returns when several rows share the latest date (SQL leaves it open): the
    one inserted last, or the one inserted first;
  \<^item> \<open>float_of\<close> is \<^verbatim>\<open>float(p)\<close>, the binary float \<^verbatim>\<open>_convert_params\<close> binds for the
    Decimal \<open>p\<close> in every statement: the price a lookup compares with and the
    price an insert stores;
  \<^item> \<open>decimal_of\<close> is \<^verbatim>\<open>Decimal(str(row["price"]))\<close>, the Decimal the program reads
    back from a stored float through its text;
  \<^item> \<open>context_round\<close> is the rounding of the result of a Decimal operation to
    the precision of the context (28 significant digits).
  The three conversions are total functions on the rationals fixed by Python and
  SQLite; no statement changes them. The theorems hold for every choice of them.
  Every method of \<^verbatim>\<open>Database\<close> opens its own connection, runs one statement and
  (for writes) commits before it returns; so the database a later statement
  sees, and the one left behind when a later statement raises, is the result
  of all statements executed so far.
\<close>

record database =
  t_building :: "building_row list"
  t_neighborhood :: "neighborhood_row list"
  t_listing :: "listing_row list"
  t_price_history :: "price_row list"
  t_tracking_event :: "event_row list"
  t_historical_sale :: "sale_row list"
  ties_newest :: bool
  faults :: "bool list"
  float_of :: "decimal \<Rightarrow> float64"
  decimal_of :: "float64 \<Rightarrow> decimal"
  context_round :: "decimal \<Rightarrow> decimal"

type_synonym 'a db_op = "database \<Rightarrow> (exn + 'a) \<times> database"

definition ret :: "'a \<Rightarrow> 'a db_op" where
  "ret x db = (Inr x, db)"

definition raise :: "exn \<Rightarrow> 'a db_op" where
  "raise e db = (Inl e, db)"

text \<open>Sequencing: an exception of the first part skips the rest, keeping the database as it is then.\<close>

definition and_then :: "'a db_op \<Rightarrow> ('a \<Rightarrow> 'b db_op) \<Rightarrow> 'b db_op" where
  "and_then m f db = (case m db of (Inl e, db') \<Rightarrow> (Inl e, db') | (Inr x, db') \<Rightarrow> f x db')"

definition statement :: "unit db_op" where
  "statement db =
     (case faults db of
        [] \<Rightarrow> (Inr (), db)
      | f # fs \<Rightarrow> (if f then Inl (DatabaseError ''database error'') else Inr (), db\<lparr>faults := fs\<rparr>))"

text \<open>\<^verbatim>\<open>Database.execute\<close>: a query; \<^verbatim>\<open>execute_insert\<close>: a write that returns the new
  rowid, committed at once, or raises when the row violates a constraint of the
  table; \<^verbatim>\<open>execute_update\<close>: a write that returns the row count, committed at once.\<close>

definition execute :: "(database \<Rightarrow> 'a) \<Rightarrow> 'a db_op" where
  "execute q = and_then statement (\<lambda>_ db. (Inr (q db), db))"

definition execute_insert :: "(database \<Rightarrow> exn + nat \<times> database) \<Rightarrow> nat db_op" where
  "execute_insert ins =
     and_then statement
       (\<lambda>_ db. case ins db of Inl e \<Rightarrow> (Inl e, db) | Inr (rowid, db') \<Rightarrow> (Inr rowid, db'))"

definition execute_update :: "(database \<Rightarrow> nat \<times> database) \<Rightarrow> nat db_op" where
  "execute_update upd = and_then statement (\<lambda>_ db. case upd db of (n, db') \<Rightarrow> (Inr n, db'))"

text \<open>Modelled from the spec: the schema file is not among the sources; the spec gives
  every table a surrogate id. A new row gets SQLite's rowid, one more than the
  largest id of the table.\<close>

definition next_id :: "nat list \<Rightarrow> nat" where
  "next_id ids = Suc (fold max ids 0)"

subsection \<open>The SQL statements of the services\<close>

definition select_building_by_name :: "string \<Rightarrow> database \<Rightarrow> nat option" where
  "select_building_by_name name db = map_option b_id (find (\<lambda>b. b_name b = name) (t_building db))"

definition select_building_by_address :: "string \<Rightarrow> database \<Rightarrow> nat option" where
  "select_building_by_address address db =
     map_option b_id (find (\<lambda>b. b_address b = address) (t_building db))"

definition select_neighborhood_by_name :: "string \<Rightarrow> database \<Rightarrow> nat option" where
  "select_neighborhood_by_name name db =
     map_option n_id (find (\<lambda>n. n_name n = name) (t_neighborhood db))"

definition insert_building ::
  "string \<Rightarrow> string \<Rightarrow> nat option \<Rightarrow> string \<Rightarrow> database \<Rightarrow> exn + nat \<times> database" where
  "insert_building name address neighborhood_id city db =
     (let i = next_id (map b_id (t_building db)) in
      Inr (i, db\<lparr>t_building := t_building db @
             [\<lparr>b_id = i, b_name = name, b_address = address,
               b_neighborhood_id = neighborhood_id, b_city = city\<rparr>]\<rparr>))"

text \<open>\<^verbatim>\<open>WHERE listing_id = ? AND recorded_date = ? AND price = ?\<close>, for the float
  that is bound.\<close>

definition same_entry :: "nat \<Rightarrow> date \<Rightarrow> float64 \<Rightarrow> price_row \<Rightarrow> bool" where
  "same_entry listing_id d x r =
     (ph_listing_id r = listing_id \<and> ph_recorded_date r = d \<and> ph_price r = x)"

definition select_price_id :: "nat \<Rightarrow> date \<Rightarrow> decimal \<Rightarrow> database \<Rightarrow> nat option" where
  "select_price_id listing_id d p db =
     map_option ph_id (find (same_entry listing_id d (float_of db p)) (t_price_history db))"

text \<open>\<^verbatim>\<open>ORDER BY recorded_date DESC LIMIT 1\<close> over rows in rowid order.\<close>

fun latest_entry :: "bool \<Rightarrow> price_row list \<Rightarrow> price_row option" where
  "latest_entry newest [] = None"
| "latest_entry newest (r # rs) =
     (case latest_entry newest rs of
        None \<Rightarrow> Some r
      | Some b \<Rightarrow>
          if ph_recorded_date b < ph_recorded_date r
             \<or> (ph_recorded_date b = ph_recorded_date r \<and> \<not> newest)
          then Some r else Some b)"

text \<open>The price of that row, as the program reads it: \<^verbatim>\<open>Decimal(str(prev["price"]))\<close>.\<close>

definition select_latest_price :: "nat \<Rightarrow> database \<Rightarrow> decimal option" where
  "select_latest_price listing_id db =
     map_option (\<lambda>r. decimal_of db (ph_price r))
       (latest_entry (ties_newest db)
          (filter (\<lambda>r. ph_listing_id r = listing_id) (t_price_history db)))"

text \<open>Modelled from the spec: the schema file is not among the sources; by the spec the
  persistence layer's referential constraint refuses a price-history row whose
  listing does not exist (every connection sets \<^verbatim>\<open>PRAGMA foreign_keys = ON\<close>). The
  other inserts of the services refer to rows they have just found or written.\<close>

definition insert_price_history ::
  "nat \<Rightarrow> decimal \<Rightarrow> date \<Rightarrow> string \<Rightarrow> database \<Rightarrow> exn + nat \<times> database" where
  "insert_price_history listing_id p d event_type db =
     (if listing_id \<in> set (map l_id (t_listing db))
      then let i = next_id (map ph_id (t_price_history db)) in
           Inr (i, db\<lparr>t_price_history := t_price_history db @
                  [\<lparr>ph_id = i, ph_listing_id = listing_id, ph_price = float_of db p,
                    ph_recorded_date = d, ph_event_type = event_type\<rparr>]\<rparr>)
      else Inl (IntegrityError ''FOREIGN KEY constraint failed''))"

section \<open>ListingService\<close>

subsection \<open>Entity resolver: \<^verbatim>\<open>_get_or_create_building\<close>\<close>

text \<open>\<^verbatim>\<open>if s: result = db.execute(...)\<close>, the result staying \<^verbatim>\<open>None\<close> otherwise.\<close>

definition if_given :: "string option \<Rightarrow> (string \<Rightarrow> 'a option db_op) \<Rightarrow> 'a option db_op" where
  "if_given s q = (case s of None \<Rightarrow> ret None | Some v \<Rightarrow> if v = [] then ret None else q v)"

definition get_or_create_building ::
  "string option \<Rightarrow> string option \<Rightarrow> string option \<Rightarrow> nat option db_op" where
  "get_or_create_building name address neighborhood =
     (if \<not> truthy name \<and> \<not> truthy address then ret None
      else
        and_then (if_given name (\<lambda>n. execute (select_building_by_name n))) (\<lambda>by_name.
        case by_name of
          Some i \<Rightarrow> ret (Some i)
        | None \<Rightarrow>
            and_then (if_given address (\<lambda>a. execute (select_building_by_address a))) (\<lambda>by_address.
            case by_address of
              Some i \<Rightarrow> ret (Some i)
            | None \<Rightarrow>
                and_then (if_given neighborhood (\<lambda>n. execute (select_neighborhood_by_name n)))
                  (\<lambda>neighborhood_id.
                let building_address = or_else address (or_else name ''Unknown'');
                    building_name = or_else name building_address
                in and_then
                     (execute_insert
                        (insert_building building_name building_address neighborhood_id ''Victoria''))
                     (\<lambda>building_id. ret (Some building_id))))))"

subsection \<open>Price history ledger: \<^verbatim>\<open>_record_price\<close>\<close>

text \<open>\<open>today\<close> is the value of \<^verbatim>\<open>date.today()\<close> during the call.\<close>

definition record_price ::
  "date \<Rightarrow> nat \<Rightarrow> decimal \<Rightarrow> date option \<Rightarrow> string \<Rightarrow> nat db_op" where
  "record_price today listing_id price price_date event_type =
     (let price_date = (case price_date of None \<Rightarrow> today | Some d \<Rightarrow> d) in
      and_then (execute (select_price_id listing_id price_date price)) (\<lambda>existing.
      case existing of
        Some i \<Rightarrow> ret i
      | None \<Rightarrow>
          and_then
            (if event_type = ''Price Change''
             then and_then (execute (select_latest_price listing_id)) (\<lambda>prev.
                    ret (case prev of
                           None \<Rightarrow> event_type
                         | Some prev_price \<Rightarrow>
                             if price < prev_price then ''Price Drop''
                             else if prev_price < price then ''Price Increase''
                             else event_type))
             else ret event_type)
            (\<lambda>event_type.
               execute_insert (insert_price_history listing_id price price_date event_type))))"

subsection \<open>Listing lifecycle manager: \<^verbatim>\<open>create_or_update_listing\<close>\<close>

text \<open>The \<^verbatim>\<open>data\<close> dictionary; \<open>None\<close> is a key that is absent (or, for the optional
  fields, holds \<^verbatim>\<open>None\<close>).\<close>

record listing_data =
  d_mls_number :: "string option"
  d_building_name :: "string option"
  d_address :: "string option"
  d_neighborhood :: "string option"
  d_unit_number :: "string option"
  d_status :: "string option"
  d_bedrooms :: "int option"
  d_bathrooms :: "rat option"
  d_square_feet :: "int option"
  d_property_type :: "string option"
  d_listing_date :: "date option"
  d_days_on_market :: "int option"
  d_description :: "string option"
  d_listing_agent :: "string option"
  d_listing_brokerage :: "string option"
  d_source_url :: "string option"
  d_source_platform :: "string option"
  d_price :: "decimal option"

record upsert_result =
  r_success :: bool
  r_listing_id :: nat
  r_mls_number :: string
  r_is_new :: bool
  r_price_recorded :: bool
  r_message :: string

definition select_listing_by_mls :: "string \<Rightarrow> database \<Rightarrow> nat option" where
  "select_listing_by_mls mls_number db =
     map_option l_id (find (\<lambda>l. l_mls_number l = Some mls_number) (t_listing db))"

text \<open>\<^verbatim>\<open>data.get(key, default)\<close> and the value an f-string prints for \<^verbatim>\<open>data.get(key)\<close>.\<close>

definition get_default :: "string option \<Rightarrow> string \<Rightarrow> string" where
  "get_default v d = (case v of None \<Rightarrow> d | Some s \<Rightarrow> s)"

definition update_listing ::
  "nat \<Rightarrow> nat option \<Rightarrow> listing_data \<Rightarrow> datetime \<Rightarrow> database \<Rightarrow> nat \<times> database" where
  "update_listing listing_id building_id data now db =
     (length (filter (\<lambda>l. l_id l = listing_id) (t_listing db)),
      db\<lparr>t_listing :=
           map (\<lambda>l. if l_id l = listing_id
                     then l\<lparr>l_building_id := building_id,
                            l_unit_number := d_unit_number data,
                            l_status := get_default (d_status data) ''Active'',
                            l_bedrooms := d_bedrooms data,
                            l_bathrooms := d_bathrooms data,
                            l_square_feet := d_square_feet data,
                            l_property_type := d_property_type data,
                            l_listing_date := d_listing_date data,
                            l_days_on_market := d_days_on_market data,
                            l_description := d_description data,
                            l_listing_agent := d_listing_agent data,
                            l_listing_brokerage := d_listing_brokerage data,
                            l_source_url := d_source_url data,
                            l_source_platform := get_default (d_source_platform data) ''Manual'',
                            l_is_active := True,
                            l_last_seen_at := now,
                            l_updated_at := now\<rparr>
                     else l)
             (t_listing db)\<rparr>)"

definition insert_listing ::
  "string \<Rightarrow> nat option \<Rightarrow> listing_data \<Rightarrow> datetime \<Rightarrow> database \<Rightarrow> exn + nat \<times> database" where
  "insert_listing mls_number building_id data now db =
     (let i = next_id (map l_id (t_listing db)) in
      Inr (i, db\<lparr>t_listing := t_listing db @
             [\<lparr>l_id = i,
               l_mls_number = Some mls_number,
               l_building_id = building_id,
               l_unit_number = d_unit_number data,
               l_status = get_default (d_status data) ''Active'',
               l_bedrooms = d_bedrooms data,
               l_bathrooms = d_bathrooms data,
               l_square_feet = d_square_feet data,
               l_property_type = d_property_type data,
               l_listing_date = d_listing_date data,
               l_days_on_market = d_days_on_market data,
               l_description = d_description data,
               l_listing_agent = d_listing_agent data,
               l_listing_brokerage = d_listing_brokerage data,
               l_source_url = d_source_url data,
               l_source_platform = get_default (d_source_platform data) ''Manual'',
               l_is_active = True,
               l_first_seen_at = now,
               l_last_seen_at = now,
               l_created_at = now,
               l_updated_at = now\<rparr>]\<rparr>))"

definition insert_tracking_event ::
  "nat \<Rightarrow> string \<Rightarrow> string \<Rightarrow> database \<Rightarrow> exn + nat \<times> database" where
  "insert_tracking_event listing_id event_type details db =
     (let i = next_id (map te_id (t_tracking_event db)) in
      Inr (i, db\<lparr>t_tracking_event := t_tracking_event db @
             [\<lparr>te_id = i, te_listing_id = listing_id, te_event_type = event_type,
               te_details = details\<rparr>]\<rparr>))"

text \<open>\<^verbatim>\<open>if price:\<close> holds for a price that is given and not zero.\<close>

definition price_given :: "decimal option \<Rightarrow> bool" where
  "price_given p = (case p of None \<Rightarrow> False | Some v \<Rightarrow> v \<noteq> 0)"

text \<open>The price step of the branch for an existing listing
  (\<^verbatim>\<open># Record price if provided and changed\<close>); its value is \<^verbatim>\<open>price_recorded\<close>.\<close>

definition record_if_changed :: "date \<Rightarrow> nat \<Rightarrow> decimal option \<Rightarrow> bool db_op" where
  "record_if_changed today listing_id price =
     (case price of
        None \<Rightarrow> ret False
      | Some p \<Rightarrow>
          if p = 0 then ret False
          else and_then (execute (select_latest_price listing_id)) (\<lambda>current_price.
                 if (case current_price of None \<Rightarrow> True | Some c \<Rightarrow> c \<noteq> p)
                 then and_then (record_price today listing_id p None ''Price Change'')
                        (\<lambda>_. ret True)
                 else ret False))"

text \<open>The price step of the branch for a new listing (\<^verbatim>\<open># Record initial price\<close>).\<close>

definition record_initial :: "date \<Rightarrow> nat \<Rightarrow> decimal option \<Rightarrow> date option \<Rightarrow> bool db_op" where
  "record_initial today listing_id price listing_date =
     (case price of
        None \<Rightarrow> ret False
      | Some p \<Rightarrow>
          if p = 0 then ret False
          else and_then (record_price today listing_id p listing_date ''Initial'') (\<lambda>_. ret True))"

text \<open>\<open>now\<close> is the value of \<^verbatim>\<open>datetime.now()\<close> during the call.\<close>

definition create_or_update_listing :: "date \<Rightarrow> datetime \<Rightarrow> listing_data \<Rightarrow> upsert_result db_op" where
  "create_or_update_listing today now data =
     (case d_mls_number data of
        None \<Rightarrow> raise (ValueError ''mls_number is required'')
      | Some mls_number \<Rightarrow>
          if mls_number = [] then raise (ValueError ''mls_number is required'')
          else
            and_then (execute (select_listing_by_mls mls_number)) (\<lambda>existing.
            and_then (get_or_create_building (d_building_name data) (d_address data)
                        (d_neighborhood data)) (\<lambda>building_id.
            case existing of
              Some listing_id \<Rightarrow>
                and_then (execute_update (update_listing listing_id building_id data now)) (\<lambda>_.
                and_then (record_if_changed today listing_id (d_price data)) (\<lambda>price_recorded.
                and_then (execute_insert
                            (insert_tracking_event listing_id ''Updated''
                               (''Updated from '' @ get_default (d_source_platform data) ''None'')))
                  (\<lambda>_.
                ret \<lparr>r_success = True, r_listing_id = listing_id, r_mls_number = mls_number,
                      r_is_new = False, r_price_recorded = price_recorded,
                      r_message = ''Listing updated''\<rparr>)))
            | None \<Rightarrow>
                and_then (execute_insert (insert_listing mls_number building_id data now))
                  (\<lambda>listing_id.
                and_then (record_initial today listing_id (d_price data) (d_listing_date data))
                  (\<lambda>price_recorded.
                and_then (execute_insert
                            (insert_tracking_event listing_id ''Discovered''
                               (''Found on '' @ get_default (d_source_platform data) ''None'')))
                  (\<lambda>_.
                ret \<lparr>r_success = True, r_listing_id = listing_id, r_mls_number = mls_number,
                      r_is_new = True, r_price_recorded = price_recorded,
                      r_message = ''New listing created''\<rparr>))))))"

subsection \<open>Status transition handler: \<^verbatim>\<open>update_status\<close>\<close>

definition update_listing_status ::
  "nat \<Rightarrow> string \<Rightarrow> bool \<Rightarrow> datetime \<Rightarrow> database \<Rightarrow> nat \<times> database" where
  "update_listing_status listing_id status is_active now db =
     (length (filter (\<lambda>l. l_id l = listing_id) (t_listing db)),
      db\<lparr>t_listing :=
           map (\<lambda>l. if l_id l = listing_id
                     then l\<lparr>l_status := status, l_is_active := is_active,
                            l_last_seen_at := now, l_updated_at := now\<rparr>
                     else l)
             (t_listing db)\<rparr>)"

definition update_status ::
  "date \<Rightarrow> datetime \<Rightarrow> string \<Rightarrow> string \<Rightarrow> decimal option \<Rightarrow> date option \<Rightarrow> bool db_op" where
  "update_status today now mls_number status sale_price sale_date =
     and_then (execute (select_listing_by_mls mls_number)) (\<lambda>listing.
     case listing of
       None \<Rightarrow> ret False
     | Some listing_id \<Rightarrow>
         and_then (execute_update
                     (update_listing_status listing_id status
                        (status \<notin> {''Sold'', ''Expired'', ''Cancelled''}) now)) (\<lambda>_.
         and_then (case sale_price of
                     None \<Rightarrow> ret ()
                   | Some p \<Rightarrow>
                       if p \<noteq> 0 \<and> status = ''Sold''
                       then and_then
                              (record_price today listing_id p
                                 (Some (case sale_date of None \<Rightarrow> today | Some d \<Rightarrow> d)) ''Sold'')
                              (\<lambda>_. ret ())
                       else ret ()) (\<lambda>_.
         and_then (execute_insert
                     (insert_tracking_event listing_id ''StatusChange''
                        (''Status changed to '' @ status))) (\<lambda>_.
         ret True))))"

subsection \<open>The boundary operation \<^verbatim>\<open>add_price\<close>\<close>

text \<open>\<^verbatim>\<open>get_listing\<close>: the listing row, then two more queries for its price history and
  its photos. Their rows are not used by \<^verbatim>\<open>add_price\<close>, which reads the id only; the
  model runs the two queries and returns the listing row.\<close>

definition get_listing :: "string \<Rightarrow> listing_row option db_op" where
  "get_listing mls_number =
     and_then (execute (\<lambda>db. find (\<lambda>l. l_mls_number l = Some mls_number) (t_listing db)))
       (\<lambda>listing.
     case listing of
       None \<Rightarrow> ret None
     | Some l \<Rightarrow>
         and_then (execute (\<lambda>db. filter (\<lambda>r. ph_listing_id r = l_id l) (t_price_history db)))
           (\<lambda>price_history.
         and_then (execute (\<lambda>db. ())) (\<lambda>photos.
         ret (Some l))))"

record price_create =
  pc_price :: decimal
  pc_date :: "date option"
  pc_event_type :: string
  pc_notes :: "string option"

record price_create_response =
  pr_success :: bool
  pr_price_history_id :: nat
  pr_previous_price :: "decimal option"
  pr_price_change :: "decimal option"
  pr_percent_change :: "rat option"

text \<open>The change is the Decimal difference, the percent change
  \<^verbatim>\<open>float(price_change / previous_price * 100)\<close>: two Decimal operations, each rounded
  to the context, and the conversion to a float.\<close>

definition add_price :: "date \<Rightarrow> string \<Rightarrow> price_create \<Rightarrow> price_create_response db_op" where
  "add_price today mls_number price =
     and_then (get_listing mls_number) (\<lambda>listing.
     case listing of
       None \<Rightarrow>
         raise (HTTPException 404 (''Listing with MLS number '' @ mls_number @ '' not found''))
     | Some l \<Rightarrow>
         and_then (execute (select_latest_price (l_id l))) (\<lambda>previous_price db.
         let price_change =
               (if price_given previous_price
                then map_option (\<lambda>pp. context_round db (pc_price price - pp)) previous_price
                else None);
             percent_change =
               (if price_given previous_price
                then (case (previous_price, price_change) of
                        (Some pp, Some ch) \<Rightarrow>
                          if pp \<noteq> 0
                          then Some (float_of db
                                 (context_round db (context_round db (ch / pp) * 100)))
                          else None
                      | _ \<Rightarrow> None)
                else None)
         in and_then (record_price today (l_id l) (pc_price price) (pc_date price)
                        (pc_event_type price)) (\<lambda>price_id.
            ret \<lparr>pr_success = True, pr_price_history_id = price_id,
                  pr_previous_price = previous_price, pr_price_change = price_change,
                  pr_percent_change = percent_change\<rparr>) db))"

section \<open>HistoricalSaleService\<close>

record sale_data =
  sd_building_name :: string
  sd_address :: "string option"
  sd_neighborhood :: "string option"
  sd_unit_number :: "string option"
  sd_sale_price :: decimal
  sd_sale_date :: string
  sd_bedrooms :: "int option"
  sd_bathrooms :: "pyfloat option"
  sd_square_feet :: "int option"
  sd_property_type :: "string option"
  sd_days_on_market :: "int option"
  sd_notes :: "string option"
  sd_data_source :: "string option"

definition insert_historical_sale ::
  "nat \<Rightarrow> sale_data \<Rightarrow> database \<Rightarrow> exn + nat \<times> database" where
  "insert_historical_sale building_id data db =
     (let i = next_id (map hs_id (t_historical_sale db)) in
      Inr (i, db\<lparr>t_historical_sale := t_historical_sale db @
             [\<lparr>hs_id = i,
               hs_building_id = building_id,
               hs_unit_number = sd_unit_number data,
               hs_sale_price = float_of db (sd_sale_price data),
               hs_sale_date = sd_sale_date data,
               hs_bedrooms = sd_bedrooms data,
               hs_bathrooms = sd_bathrooms data,
               hs_square_feet = sd_square_feet data,
               hs_property_type = sd_property_type data,
               hs_days_on_market = sd_days_on_market data,
               hs_notes = sd_notes data,
               hs_data_source = get_default (sd_data_source data) ''Manual Entry''\<rparr>]\<rparr>))"

text \<open>The service's own \<^verbatim>\<open>_get_or_create_building\<close>: the name is a string and is always
  looked up.\<close>

definition hs_get_or_create_building ::
  "string \<Rightarrow> string option \<Rightarrow> string option \<Rightarrow> nat db_op" where
  "hs_get_or_create_building name address neighborhood =
     and_then (execute (select_building_by_name name)) (\<lambda>by_name.
     case by_name of
       Some i \<Rightarrow> ret i
     | None \<Rightarrow>
         and_then (if_given address (\<lambda>a. execute (select_building_by_address a))) (\<lambda>by_address.
         case by_address of
           Some i \<Rightarrow> ret i
         | None \<Rightarrow>
             and_then (if_given neighborhood (\<lambda>n. execute (select_neighborhood_by_name n)))
               (\<lambda>neighborhood_id.
             let building_address = or_else address (or_else (Some name) ''Unknown'')
             in execute_insert
                  (insert_building name building_address neighborhood_id ''Victoria''))))"

text \<open>\<^verbatim>\<open>create_sale\<close>; its value is the new \<^verbatim>\<open>sale_id\<close>. The photo download that
  follows the insert when the record carries photo URLs is the work of the
  photo collaborator on the file store; it does not touch the database, and the
  records of a CSV import carry no photos.\<close>

definition create_sale :: "sale_data \<Rightarrow> nat db_op" where
  "create_sale data =
     and_then (hs_get_or_create_building (sd_building_name data) (sd_address data)
                 (sd_neighborhood data)) (\<lambda>building_id.
     execute_insert (insert_historical_sale building_id data))"

subsection \<open>Strings\<close>

definition digit_char :: "nat \<Rightarrow> char" where
  "digit_char d = ''0123456789'' ! d"

fun str_nat :: "nat \<Rightarrow> string" where
  "str_nat n = (if n < 10 then [digit_char n] else str_nat (n div 10) @ [digit_char (n mod 10)])"

declare str_nat.simps [simp del]

text \<open>\<^verbatim>\<open>str.strip()\<close>, for the ASCII white space.\<close>

definition is_space :: "char \<Rightarrow> bool" where
  "is_space c =
     (c \<in> set [CHR '' '', CHR 0x09, CHR 0x0A, CHR 0x0B, CHR 0x0C, CHR 0x0D,
               CHR 0x1C, CHR 0x1D, CHR 0x1E, CHR 0x1F])"

definition strip :: "string \<Rightarrow> string" where
  "strip s = rev (dropWhile is_space (rev (dropWhile is_space s)))"

definition quoted :: "string \<Rightarrow> string" where
  "quoted s = [CHR 0x27] @ s @ [CHR 0x27]"

subsection \<open>The library functions of the importer\<close>

text \<open>
  The parsers of the Python library are parameters of the model:
  \<^item> \<open>decimal_of_str\<close> is \<^verbatim>\<open>Decimal(text)\<close>, \<open>None\<close> when it raises
    \<^verbatim>\<open>InvalidOperation\<close>;
  \<^item> \<open>strptime\<close> is \<^verbatim>\<open>datetime.strptime(text, fmt).strftime("%Y-%m-%d")\<close>, \<open>None\<close>
    when \<^verbatim>\<open>strptime\<close> raises \<^verbatim>\<open>ValueError\<close>;
  \<^item> \<open>float_of_str\<close> is \<^verbatim>\<open>float(text)\<close>, \<open>None\<close> when it raises \<^verbatim>\<open>ValueError\<close>.
\<close>

record pylib =
  decimal_of_str :: "string \<Rightarrow> decimal option"
  strptime :: "string \<Rightarrow> string \<Rightarrow> string option"
  float_of_str :: "string \<Rightarrow> pyfloat option"

text \<open>Exceptions inside a row: the first one ends the row.\<close>

definition try_then :: "exn + 'a \<Rightarrow> ('a \<Rightarrow> exn + 'b) \<Rightarrow> exn + 'b" where
  "try_then r f = (case r of Inl e \<Rightarrow> Inl e | Inr x \<Rightarrow> f x)"

text \<open>A row of \<^verbatim>\<open>csv.DictReader\<close>: the field names zipped with the values of the
  record; a name whose value is missing holds \<^verbatim>\<open>None\<close>, and of a name that occurs
  twice the last value counts. (Surplus values go under the key \<^verbatim>\<open>None\<close>, which the
  importer never reads.)\<close>

type_synonym csv_row = "string \<Rightarrow> string option option"

definition dict_row :: "string list \<Rightarrow> string list \<Rightarrow> csv_row" where
  "dict_row fieldnames vals =
     map_of (rev (zip fieldnames
                    (map Some vals @ replicate (length fieldnames - length vals) None)))"

text \<open>\<^verbatim>\<open>row[key]\<close> and \<^verbatim>\<open>row.get(key, default)\<close>.\<close>

definition row_item :: "csv_row \<Rightarrow> string \<Rightarrow> exn + string option" where
  "row_item row k = (case row k of None \<Rightarrow> Inl (KeyError (quoted k)) | Some v \<Rightarrow> Inr v)"

definition row_get :: "csv_row \<Rightarrow> string \<Rightarrow> string option \<Rightarrow> string option" where
  "row_get row k d = (case row k of None \<Rightarrow> d | Some v \<Rightarrow> v)"

text \<open>A method call on a value that may be \<^verbatim>\<open>None\<close>.\<close>

definition need_str :: "string \<Rightarrow> string option \<Rightarrow> exn + string" where
  "need_str method v =
     (case v of
        None \<Rightarrow>
          Inl (AttributeError
                 (quoted ''NoneType'' @ '' object has no attribute '' @ quoted method))
      | Some s \<Rightarrow> Inr s)"

text \<open>\<^verbatim>\<open>row.get(key, "").strip() or None\<close>.\<close>

definition opt_text :: "csv_row \<Rightarrow> string \<Rightarrow> exn + string option" where
  "opt_text row k =
     try_then (need_str ''strip'' (row_get row k (Some [])))
       (\<lambda>s. Inr (if strip s = [] then None else Some (strip s)))"

definition parse_int :: "pylib \<Rightarrow> string option \<Rightarrow> exn + int option" where
  "parse_int lib v =
     (case v of
        None \<Rightarrow> Inr None
      | Some s \<Rightarrow>
          if s = [] \<or> strip s = [] then Inr None
          else (case float_of_str lib s of
                  None \<Rightarrow> Inr None
                | Some (Finite q) \<Rightarrow> Inr (Some (if 0 \<le> q then \<lfloor>q\<rfloor> else \<lceil>q\<rceil>))
                | Some Infinite \<Rightarrow>
                    Inl (OverflowError ''cannot convert float infinity to integer'')
                | Some NaN \<Rightarrow> Inr None))"

definition parse_float :: "pylib \<Rightarrow> string option \<Rightarrow> pyfloat option" where
  "parse_float lib v =
     (case v of
        None \<Rightarrow> None
      | Some s \<Rightarrow> if s = [] \<or> strip s = [] then None else float_of_str lib s)"

fun first_format :: "pylib \<Rightarrow> string \<Rightarrow> string list \<Rightarrow> string option" where
  "first_format lib s [] = None"
| "first_format lib s (fmt # fmts) =
     (case strptime lib s fmt of Some text \<Rightarrow> Some text | None \<Rightarrow> first_format lib s fmts)"

subsection \<open>Bulk importer: \<^verbatim>\<open>import_csv\<close>\<close>

text \<open>What the parsing part of the loop body does with a row: it appends a message
  and goes on to the next row (\<^verbatim>\<open>continue\<close>), or it has the record to create.\<close>

datatype parsed = Skip string | Sale sale_data

definition parse_row :: "pylib \<Rightarrow> nat \<Rightarrow> csv_row \<Rightarrow> exn + parsed" where
  "parse_row lib row_num row =
     try_then (row_item row ''sale_price'') (\<lambda>raw_price.
     try_then (need_str ''replace'' raw_price) (\<lambda>price_text.
     case decimal_of_str lib
            (filter (\<lambda>c. c \<noteq> CHR ''$'') (filter (\<lambda>c. c \<noteq> CHR '','') price_text)) of
       None \<Rightarrow>
         Inr (Skip (''Row '' @ str_nat row_num @ '': Invalid sale_price '' @ quoted price_text))
     | Some sale_price \<Rightarrow>
         try_then (row_item row ''sale_date'') (\<lambda>raw_date.
         try_then (case raw_date of
                     None \<Rightarrow> Inl (TypeError ''strptime() argument 1 must be str, not None'')
                   | Some d \<Rightarrow> Inr d) (\<lambda>date_text.
         case first_format lib date_text [''%Y-%m-%d'', ''%m/%d/%Y'', ''%d/%m/%Y'', ''%m-%d-%Y''] of
           None \<Rightarrow>
             Inr (Skip (''Row '' @ str_nat row_num @ '': Invalid date format ''
                        @ quoted date_text))
         | Some sale_date \<Rightarrow>
             try_then (parse_int lib (row_get row ''bedrooms'' None)) (\<lambda>bedrooms.
             try_then (Inr (parse_float lib (row_get row ''bathrooms'' None))) (\<lambda>bathrooms.
             try_then (parse_int lib (row_get row ''square_feet'' None)) (\<lambda>square_feet.
             try_then (parse_int lib (row_get row ''days_on_market'' None)) (\<lambda>days_on_market.
             try_then (row_item row ''building_name'') (\<lambda>raw_name.
             try_then (need_str ''strip'' raw_name) (\<lambda>name.
             try_then (opt_text row ''address'') (\<lambda>address.
             try_then (opt_text row ''neighborhood'') (\<lambda>neighborhood.
             try_then (opt_text row ''unit_number'') (\<lambda>unit_number.
             try_then (opt_text row ''property_type'') (\<lambda>property_type.
             try_then (opt_text row ''notes'') (\<lambda>notes.
             Inr (Sale \<lparr>sd_building_name = strip name,
                        sd_address = address,
                        sd_neighborhood = neighborhood,
                        sd_unit_number = unit_number,
                        sd_sale_price = sale_price,
                        sd_sale_date = sale_date,
                        sd_bedrooms = bedrooms,
                        sd_bathrooms = bathrooms,
                        sd_square_feet = square_feet,
                        sd_property_type = property_type,
                        sd_days_on_market = days_on_market,
                        sd_notes = notes,
                        sd_data_source = Some ''CSV Import''\<rparr>))))))))))))))))"

record import_result =
  i_success :: bool
  i_total_rows :: nat
  i_imported :: nat
  i_skipped :: nat
  i_errors :: "string list"

definition row_failed :: "string \<Rightarrow> import_result \<Rightarrow> import_result" where
  "row_failed msg res = res\<lparr>i_errors := i_errors res @ [msg], i_skipped := i_skipped res + 1\<rparr>"

text \<open>One turn of the loop, for the row numbered \<open>row_num\<close>.\<close>

definition process_row ::
  "pylib \<Rightarrow> nat \<Rightarrow> csv_row \<Rightarrow> import_result \<times> database \<Rightarrow> import_result \<times> database" where
  "process_row lib row_num row st =
     (let res = (fst st)\<lparr>i_total_rows := i_total_rows (fst st) + 1\<rparr>; db = snd st in
      case parse_row lib row_num row of
        Inr (Skip msg) \<Rightarrow> (row_failed msg res, db)
      | Inl e \<Rightarrow> (row_failed (''Row '' @ str_nat row_num @ '': '' @ str_exn e) res, db)
      | Inr (Sale data) \<Rightarrow>
          (case create_sale data db of
             (Inl e, db') \<Rightarrow>
               (row_failed (''Row '' @ str_nat row_num @ '': '' @ str_exn e) res, db')
           | (Inr sale_id, db') \<Rightarrow> (res\<lparr>i_imported := i_imported res + 1\<rparr>, db')))"

text \<open>The input is what \<^verbatim>\<open>csv.reader\<close> yields for the text, record by record;
  \<open>Malformed\<close> is the point where the reader raises \<^verbatim>\<open>csv.Error\<close>.\<close>

datatype csv_item = Record "string list" | Malformed string

definition batch_failed :: "string \<Rightarrow> import_result \<Rightarrow> import_result" where
  "batch_failed msg res = res\<lparr>i_success := False, i_errors := i_errors res @ [msg]\<rparr>"

text \<open>\<^verbatim>\<open>for row_num, row in enumerate(reader, start=2)\<close>: the reader skips empty
  records; an error of the reader leaves the loop for the outer handler.\<close>

fun import_rows ::
  "pylib \<Rightarrow> string list \<Rightarrow> nat \<Rightarrow> csv_item list \<Rightarrow> import_result \<times> database
     \<Rightarrow> import_result \<times> database" where
  "import_rows lib fieldnames row_num [] st = st"
| "import_rows lib fieldnames row_num (Malformed m # items) st =
     (batch_failed (''CSV parsing error: '' @ m) (fst st), snd st)"
| "import_rows lib fieldnames row_num (Record vals # items) st =
     (if vals = [] then import_rows lib fieldnames row_num items st
      else import_rows lib fieldnames (Suc row_num) items
             (process_row lib row_num (dict_row fieldnames vals) st))"

definition join_comma :: "string list \<Rightarrow> string" where
  "join_comma xs = concat (case xs of [] \<Rightarrow> [] | y # ys \<Rightarrow> y # map (\<lambda>z. '', '' @ z) ys)"

definition import_csv :: "pylib \<Rightarrow> csv_item list \<Rightarrow> database \<Rightarrow> import_result \<times> database" where
  "import_csv lib items db =
     (let results = \<lparr>i_success = True, i_total_rows = 0, i_imported = 0, i_skipped = 0,
                      i_errors = []\<rparr>
      in case items of
           [] \<Rightarrow> (batch_failed ''CSV has no headers'' results, db)
         | Malformed m # rest \<Rightarrow> (batch_failed (''CSV parsing error: '' @ m) results, db)
         | Record fieldnames # rest \<Rightarrow>
             if fieldnames = [] then (batch_failed ''CSV has no headers'' results, db)
             else
               let missing = filter (\<lambda>c. c \<notin> set fieldnames)
                               [''building_name'', ''sale_price'', ''sale_date'']
               in if missing \<noteq> []
                  then (batch_failed (''Missing required columns: '' @ join_comma missing) results,
                        db)
                  else import_rows lib fieldnames 2 rest (results, db))"

section \<open>PhotoService\<close>

text \<open>An entry of a directory: a file, or a directory with its own entries.\<close>

datatype node = File string | Dir string "node list"

text \<open>The two roots of the photo store; \<open>None\<close> is a root that does not exist.\<close>

record photo_store =
  listings_path :: "node list option"
  historical_path :: "node list option"

record purge_stats =
  listings_deleted :: nat
  historical_deleted :: nat
  purge_errors :: "string list"

text \<open>Whether the loop over a root removes this entry: a directory whose name is not
  in the live set.\<close>

fun orphan :: "string list \<Rightarrow> node \<Rightarrow> bool" where
  "orphan live (File name) = False"
| "orphan live (Dir name entries) = (name \<notin> set live)"

fun entry_count :: "node \<Rightarrow> nat" where
  "entry_count (File name) = 0"
| "entry_count (Dir name entries) = length entries"

text \<open>The loop over one root: the number of entries counted in the removed
  directories, and what is left of the root.\<close>

definition purge_root :: "string list \<Rightarrow> node list option \<Rightarrow> nat \<times> node list option" where
  "purge_root live dir =
     (case dir of
        None \<Rightarrow> (0, None)
      | Some entries \<Rightarrow>
          (sum_list (map entry_count (filter (orphan live) entries)),
           Some (filter (\<lambda>n. \<not> orphan live n) entries)))"

definition select_mls_numbers :: "database \<Rightarrow> string list" where
  "select_mls_numbers db = List.map_filter l_mls_number (t_listing db)"

definition select_sale_ids :: "database \<Rightarrow> nat list" where
  "select_sale_ids db = map hs_id (t_historical_sale db)"

text \<open>\<^verbatim>\<open>try: result = db.execute(q); live = {...} except Exception as e: errors.append(...)\<close>:
  the live set, empty when the query raised, and the errors with the message added.\<close>

definition fetch_live ::
  "(database \<Rightarrow> string list) \<Rightarrow> string \<Rightarrow> string list \<Rightarrow> database
     \<Rightarrow> (string list \<times> string list) \<times> database" where
  "fetch_live q what errors db =
     (case execute q db of
        (Inr rows, db') \<Rightarrow> ((rows, errors), db')
      | (Inl e, db') \<Rightarrow> (([], errors @ [what @ str_exn e]), db'))"

definition purge_orphaned_photos ::
  "photo_store \<Rightarrow> database \<Rightarrow> (purge_stats \<times> photo_store) \<times> database" where
  "purge_orphaned_photos store db =
     (case fetch_live select_mls_numbers ''Could not fetch active listings: '' [] db of
        ((active_mls, errors1), db1) \<Rightarrow>
     case purge_root active_mls (listings_path store) of
        (listings_count, listings') \<Rightarrow>
     case fetch_live (\<lambda>d. map str_nat (select_sale_ids d))
            ''Could not fetch historical sales: '' errors1 db1 of
        ((active_sale_ids, errors2), db2) \<Rightarrow>
     case purge_root active_sale_ids (historical_path store) of
        (historical_count, historical') \<Rightarrow>
     ((\<lparr>listings_deleted = listings_count, historical_deleted = historical_count,
         purge_errors = errors2\<rparr>,
       \<lparr>listings_path = listings', historical_path = historical'\<rparr>), db2))"

section \<open>Vocabulary of the statements\<close>

text \<open>The date of an entry: the one given, or today's.\<close>

definition date_or :: "date \<Rightarrow> date option \<Rightarrow> date" where
  "date_or today d = (case d of None \<Rightarrow> today | Some x \<Rightarrow> x)"

text \<open>The event kind as the specification words it: a hint other than
  \<^verbatim>\<open>"Price Change"\<close> is kept; the generic hint is compared with the price of the most
  recent entry, when there is one.\<close>

definition resolved_kind :: "string \<Rightarrow> decimal \<Rightarrow> decimal option \<Rightarrow> string" where
  "resolved_kind hint p prev =
     (case prev of
        None \<Rightarrow> hint
      | Some q \<Rightarrow>
          if hint = ''Price Change''
          then (if p < q then ''Price Drop'' else if q < p then ''Price Increase'' else ''Price Change'')
          else hint)"

text \<open>A most recent entry of a listing, in the specification's words: an entry of the
  listing such that no entry of the listing has a later recorded date.\<close>

definition is_latest :: "nat \<Rightarrow> price_row \<Rightarrow> database \<Rightarrow> bool" where
  "is_latest lid r db =
     (r \<in> set (t_price_history db) \<and> ph_listing_id r = lid
      \<and> (\<forall>r' \<in> set (t_price_history db).
            ph_listing_id r' = lid \<longrightarrow> ph_recorded_date r' \<le> ph_recorded_date r))"

text \<open>\<open>prev\<close> is the current price of the listing: \<open>None\<close> when the listing has no
  entry, and otherwise the price, as read back, of a most recent entry.\<close>

definition prior_price :: "nat \<Rightarrow> database \<Rightarrow> decimal option \<Rightarrow> bool" where
  "prior_price lid db prev =
     (case prev of
        None \<Rightarrow> (\<forall>r \<in> set (t_price_history db). ph_listing_id r \<noteq> lid)
      | Some q \<Rightarrow> (\<exists>r. is_latest lid r db \<and> q = decimal_of db (ph_price r)))"

text \<open>The building an exact match on the name (on the address) finds, for a name
  (an address) that is given.\<close>

definition name_match :: "string option \<Rightarrow> database \<Rightarrow> building_row option" where
  "name_match name db =
     (case name of
        None \<Rightarrow> None
      | Some n \<Rightarrow> if n = [] then None else find (\<lambda>b. b_name b = n) (t_building db))"

definition address_match :: "string option \<Rightarrow> database \<Rightarrow> building_row option" where
  "address_match address db =
     (case address of
        None \<Rightarrow> None
      | Some a \<Rightarrow> if a = [] then None else find (\<lambda>b. b_address b = a) (t_building db))"

text \<open>The row the resolver inserts when both lookups miss.\<close>

definition new_building :: "string option \<Rightarrow> string option \<Rightarrow> string option \<Rightarrow> database \<Rightarrow> building_row" where
  "new_building name address nb db =
     \<lparr>b_id = next_id (map b_id (t_building db)),
      b_name = or_else name (or_else address (or_else name ''Unknown'')),
      b_address = or_else address (or_else name ''Unknown''),
      b_neighborhood_id =
        (case nb of None \<Rightarrow> None
         | Some n \<Rightarrow> if n = [] then None else select_neighborhood_by_name n db),
      b_city = ''Victoria''\<rparr>"

text \<open>What \<^verbatim>\<open>update_status\<close> makes of a listing row.\<close>

definition status_row :: "nat \<Rightarrow> string \<Rightarrow> datetime \<Rightarrow> listing_row \<Rightarrow> listing_row" where
  "status_row lid status now l =
     (if l_id l = lid
      then l\<lparr>l_status := status,
             l_is_active := (status \<notin> {''Sold'', ''Expired'', ''Cancelled''}),
             l_last_seen_at := now, l_updated_at := now\<rparr>
      else l)"

subsection \<open>The steps of one upsert\<close>

text \<open>
  \<^verbatim>\<open>create_or_update_listing\<close> runs four steps in a row: the lookup of the listing
  with the building resolution, the listing write, the price step, and the
  tracking-event insert with the result. The definitions below are these steps,
  cut out of the operation; lemma \<open>upsert_steps\<close> shows that the operation is
  their sequence.
\<close>

definition upsert_resolve :: "listing_data \<Rightarrow> string \<Rightarrow> (nat option \<times> nat option) db_op" where
  "upsert_resolve data mls_number =
     and_then (execute (select_listing_by_mls mls_number)) (\<lambda>existing.
     and_then (get_or_create_building (d_building_name data) (d_address data)
                 (d_neighborhood data)) (\<lambda>building_id.
     ret (existing, building_id)))"

definition listing_write ::
  "datetime \<Rightarrow> listing_data \<Rightarrow> string \<Rightarrow> nat option \<times> nat option \<Rightarrow> (nat \<times> bool) db_op" where
  "listing_write now data mls_number found =
     (case fst found of
        Some listing_id \<Rightarrow>
          and_then (execute_update (update_listing listing_id (snd found) data now))
            (\<lambda>_. ret (listing_id, False))
      | None \<Rightarrow>
          and_then (execute_insert (insert_listing mls_number (snd found) data now))
            (\<lambda>listing_id. ret (listing_id, True)))"

definition price_step :: "date \<Rightarrow> listing_data \<Rightarrow> nat \<times> bool \<Rightarrow> bool db_op" where
  "price_step today data written =
     (if snd written
      then record_initial today (fst written) (d_price data) (d_listing_date data)
      else record_if_changed today (fst written) (d_price data))"

definition event_step :: "listing_data \<Rightarrow> string \<Rightarrow> nat \<times> bool \<Rightarrow> bool \<Rightarrow> upsert_result db_op" where
  "event_step data mls_number written price_recorded =
     and_then (execute_insert
                 (insert_tracking_event (fst written)
                    (if snd written then ''Discovered'' else ''Updated'')
                    ((if snd written then ''Found on '' else ''Updated from '')
                       @ get_default (d_source_platform data) ''None''))) (\<lambda>_.
     ret \<lparr>r_success = True, r_listing_id = fst written, r_mls_number = mls_number,
           r_is_new = snd written, r_price_recorded = price_recorded,
           r_message = (if snd written then ''New listing created'' else ''Listing updated'')\<rparr>)"

text \<open>The tables of a database, the schedule of failures left aside.\<close>

definition tables :: "database \<Rightarrow> database" where
  "tables db = db\<lparr>faults := []\<rparr>"

text \<open>An operation that leaves an observation of the database as it is, whatever
  it returns; and an operation that, when it raises, has written nothing.\<close>

definition keeps :: "(database \<Rightarrow> 'x) \<Rightarrow> 'a db_op \<Rightarrow> bool" where
  "keeps obs m = (\<forall>db. obs (snd (m db)) = obs db)"

definition fails_clean :: "'a db_op \<Rightarrow> bool" where
  "fails_clean m = (\<forall>db e db'. m db = (Inl e, db') \<longrightarrow> tables db' = tables db)"

section \<open>Example data\<close>

text \<open>In the examples every price is an integer below \<open>2 ^ 53\<close>; on those the
  conversions between Decimal and float are the identity.\<close>

definition empty_db :: database where
  "empty_db = \<lparr>t_building = [], t_neighborhood = [], t_listing = [], t_price_history = [],
     t_tracking_event = [], t_historical_sale = [], ties_newest = False, faults = [],
     float_of = (\<lambda>p. p), decimal_of = (\<lambda>x. x), context_round = (\<lambda>p. p)\<rparr>"

definition alpha_db :: database where
  "alpha_db = empty_db\<lparr>t_building :=
     [\<lparr>b_id = 1, b_name = ''Alpha'', b_address = ''1 Main St'', b_neighborhood_id = None,
       b_city = ''Victoria''\<rparr>]\<rparr>"

definition listing7 :: listing_row where
  "listing7 = \<lparr>l_id = 7, l_mls_number = Some ''R1'', l_building_id = None, l_unit_number = None,
     l_status = ''Active'', l_bedrooms = None, l_bathrooms = None, l_square_feet = None,
     l_property_type = None, l_listing_date = None, l_days_on_market = None,
     l_description = None, l_listing_agent = None, l_listing_brokerage = None,
     l_source_url = None, l_source_platform = ''Manual'', l_is_active = True,
     l_first_seen_at = 0, l_last_seen_at = 0, l_created_at = 0, l_updated_at = 0\<rparr>"

definition priced_db :: database where
  "priced_db = empty_db\<lparr>t_listing := [listing7],
     t_price_history :=
       [\<lparr>ph_id = 3, ph_listing_id = 7, ph_price = 500000, ph_recorded_date = 10,
         ph_event_type = ''Initial''\<rparr>]\<rparr>"

definition ledger_db :: database where
  "ledger_db = empty_db\<lparr>t_listing := [listing7],
     t_price_history :=
       [\<lparr>ph_id = 3, ph_listing_id = 7, ph_price = 500000, ph_recorded_date = 10,
         ph_event_type = ''Initial''\<rparr>,
        \<lparr>ph_id = 4, ph_listing_id = 7, ph_price = 475000, ph_recorded_date = 20,
         ph_event_type = ''Sold''\<rparr>,
        \<lparr>ph_id = 5, ph_listing_id = 7, ph_price = 500000, ph_recorded_date = 30,
         ph_event_type = ''Price Increase''\<rparr>]\<rparr>"

definition data_r1 :: listing_data where
  "data_r1 = \<lparr>d_mls_number = Some ''R1'', d_building_name = None, d_address = None,
     d_neighborhood = None, d_unit_number = None, d_status = None, d_bedrooms = None,
     d_bathrooms = None, d_square_feet = None, d_property_type = None, d_listing_date = None,
     d_days_on_market = None, d_description = None, d_listing_agent = None,
     d_listing_brokerage = None, d_source_url = None, d_source_platform = None,
     d_price = Some 475000\<rparr>"

definition listed_db :: database where
  "listed_db = empty_db\<lparr>t_listing := [listing7],
     t_price_history :=
       [\<lparr>ph_id = 3, ph_listing_id = 7, ph_price = 450000, ph_recorded_date = 5,
         ph_event_type = ''Initial''\<rparr>,
        \<lparr>ph_id = 4, ph_listing_id = 7, ph_price = 500000, ph_recorded_date = 30,
         ph_event_type = ''Price Increase''\<rparr>,
        \<lparr>ph_id = 5, ph_listing_id = 7, ph_price = 475000, ph_recorded_date = 20,
         ph_event_type = ''Price Drop''\<rparr>]\<rparr>"

definition sold_db :: database where
  "sold_db = priced_db\<lparr>t_listing := [listing7]\<rparr>"

definition zero_db :: database where
  "zero_db = empty_db\<lparr>t_listing := [listing7],
     t_price_history :=
       [\<lparr>ph_id = 3, ph_listing_id = 7, ph_price = 0, ph_recorded_date = 10,
         ph_event_type = ''Price Change''\<rparr>]\<rparr>"

definition data_alpha :: listing_data where
  "data_alpha = data_r1\<lparr>d_building_name := Some ''Alpha'', d_price := Some 500000\<rparr>"

definition failing_db :: database where
  "failing_db = empty_db\<lparr>faults := [False, False, False, False, False, False, True]\<rparr>"

text \<open>The empty database whose statement number \<open>n + 1\<close> fails.\<close>

definition fail_at :: "nat \<Rightarrow> database" where
  "fail_at n = empty_db\<lparr>faults := replicate n False @ [True]\<rparr>"

section \<open>Basic facts about the store\<close>

lemma statement_ok: "faults db = [] \<Longrightarrow> statement db = (Inr (), db)"
  by (simp add: statement_def)

lemma execute_ok: "faults db = [] \<Longrightarrow> execute q db = (Inr (q db), db)"
  by (simp add: execute_def and_then_def statement_ok)

lemma execute_insert_ok:
  "faults db = [] \<Longrightarrow>
   execute_insert ins db =
     (case ins db of Inl e \<Rightarrow> (Inl e, db) | Inr (i, db') \<Rightarrow> (Inr i, db'))"
  by (simp add: execute_insert_def and_then_def statement_ok)

lemma execute_update_ok:
  "faults db = [] \<Longrightarrow> execute_update upd db = (Inr (fst (upd db)), snd (upd db))"
  by (simp add: execute_update_def and_then_def statement_ok split: prod.splits)

lemma fold_max_ge: "x \<in> set ids \<Longrightarrow> x \<le> fold max ids (0::nat)"
proof -
  assume "x \<in> set ids"
  then have "x \<le> Max (set (0 # ids))" by (intro Max_ge) auto
  then show ?thesis by (simp only: Max.set_eq_fold)
qed

lemma next_id_fresh: "next_id ids \<notin> set ids"
  using fold_max_ge[of "next_id ids" ids] by (auto simp: next_id_def)

lemma find_append_miss: "find P xs = None \<Longrightarrow> find P (xs @ ys) = find P ys"
  by (induction xs) (auto split: if_splits)

lemma find_append_hit: "find P xs = Some x \<Longrightarrow> find P (xs @ ys) = Some x"
  by (induction xs) (auto split: if_splits)

lemma filter_find_None: "find P xs = None \<Longrightarrow> filter P xs = []"
  by (induction xs) (auto split: if_splits)

lemma find_Some_filter: "find P xs = Some x \<Longrightarrow> filter P xs \<noteq> []"
  by (induction xs) (auto split: if_splits)

lemma find_SomeD: "find P xs = Some x \<Longrightarrow> x \<in> set xs \<and> P x"
  by (induction xs) (auto split: if_splits)

lemma find_map_same:
  assumes "\<And>x. P (g x) = P x"
  shows "find P (map g xs) = map_option g (find P xs)"
  by (induction xs) (simp_all add: assms)

lemma and_then_ret [simp]: "and_then (ret x) f = f x"
  by (rule ext) (simp add: and_then_def ret_def)

lemma and_then_assoc: "and_then (and_then m f) g = and_then m (\<lambda>x. and_then (f x) g)"
  by (rule ext) (simp add: and_then_def split: prod.splits sum.splits)

lemma and_then_execute_ok: "faults db = [] \<Longrightarrow> and_then (execute q) f db = f (q db) db"
  by (simp add: and_then_def execute_ok)

lemma and_then_update_ok:
  "faults db = [] \<Longrightarrow> and_then (execute_update upd) f db = f (fst (upd db)) (snd (upd db))"
  by (simp add: and_then_def execute_update_ok)

lemma and_then_InrD:
  "and_then m f db = (Inr y, db') \<Longrightarrow> \<exists>x db1. m db = (Inr x, db1) \<and> f x db1 = (Inr y, db')"
  by (auto simp: and_then_def split: prod.splits sum.splits)

lemma date_or_Some [simp]: "date_or today (Some d) = d"
  by (simp add: date_or_def)

lemma date_or_None [simp]: "date_or today None = today"
  by (simp add: date_or_def)

lemma resolved_kind_other: "hint \<noteq> ''Price Change'' \<Longrightarrow> resolved_kind hint p prev = hint"
  by (simp add: resolved_kind_def split: option.splits)

section \<open>Price history ledger\<close>

lemma latest_entry_None: "(latest_entry newest rs = None) = (rs = [])"
  by (induction rs) (auto split: option.splits)

lemma latest_entry_Some:
  "latest_entry newest rs = Some b \<Longrightarrow>
   b \<in> set rs \<and> (\<forall>r \<in> set rs. ph_recorded_date r \<le> ph_recorded_date b)"
proof (induction rs arbitrary: b)
  case Nil
  then show ?case by simp
next
  case (Cons r rs)
  show ?case
  proof (cases "latest_entry newest rs")
    case None
    then have "rs = []" by (simp add: latest_entry_None)
    with Cons.prems show ?thesis by simp
  next
    case (Some c)
    from Cons.IH[OF Some] Cons.prems Some show ?thesis
      by (auto split: if_splits)
  qed
qed

text \<open>The query for the current price returns the price of a most recent entry.\<close>

lemma select_latest_price_prior: "prior_price lid db (select_latest_price lid db)"
proof (cases "latest_entry (ties_newest db)
                (filter (\<lambda>r. ph_listing_id r = lid) (t_price_history db))")
  case None
  then have "filter (\<lambda>r. ph_listing_id r = lid) (t_price_history db) = []"
    by (simp add: latest_entry_None)
  then have "\<forall>r \<in> set (t_price_history db). ph_listing_id r \<noteq> lid"
    by (simp add: filter_empty_conv)
  with None show ?thesis by (simp add: prior_price_def select_latest_price_def)
next
  case (Some b)
  from latest_entry_Some[OF Some] have "is_latest lid b db"
    by (auto simp: is_latest_def)
  with Some show ?thesis by (auto simp: prior_price_def select_latest_price_def)
qed

lemma record_price_existing:
  assumes "faults db = []"
    and "find (same_entry lid (date_or today d) (float_of db p)) (t_price_history db) = Some r"
  shows "record_price today lid p d hint db = (Inr (ph_id r), db)"
  using assms
  by (simp add: record_price_def and_then_def execute_ok ret_def select_price_id_def
      date_or_def Let_def)

lemma record_price_new:
  assumes "faults db = []"
    and "find (same_entry lid (date_or today d) (float_of db p)) (t_price_history db) = None"
    and "lid \<in> set (map l_id (t_listing db))"
  shows "record_price today lid p d hint db =
     (Inr (next_id (map ph_id (t_price_history db))),
      db\<lparr>t_price_history := t_price_history db @
           [\<lparr>ph_id = next_id (map ph_id (t_price_history db)), ph_listing_id = lid,
             ph_price = float_of db p, ph_recorded_date = date_or today d,
             ph_event_type = resolved_kind hint p (select_latest_price lid db)\<rparr>]\<rparr>)"
  using assms
  by (simp add: record_price_def and_then_def execute_ok ret_def select_price_id_def
      date_or_def[symmetric] resolved_kind_def execute_insert_ok insert_price_history_def
      Let_def split: option.splits)

lemma record_price_refused:
  assumes "faults db = []"
    and "find (same_entry lid (date_or today d) (float_of db p)) (t_price_history db) = None"
    and "lid \<notin> set (map l_id (t_listing db))"
  shows "record_price today lid p d hint db =
           (Inl (IntegrityError ''FOREIGN KEY constraint failed''), db)"
  using assms
  by (simp add: record_price_def and_then_def execute_ok ret_def select_price_id_def
      date_or_def[symmetric] execute_insert_ok insert_price_history_def Let_def
      split: option.splits)

text \<open>
  C2. \<^verbatim>\<open>_record_price\<close> is idempotent on (listing, date, price), the price being the
  float that is bound for it in the lookup and in the insert. When no statement
  fails: if the ledger already holds a row with that listing, date and price,
  the call returns the id of the first such row and leaves the database as it
  is; a call for a listing that exists returns; and whenever a call has
  returned, a second call with the same listing, date and price returns the
  same id and changes nothing, after which exactly one row with that triple is
  stored, provided the ledger held at most one before.
\<close>

theorem record_price_idempotent:
  assumes "faults db = []"
  shows "(\<forall>r. find (same_entry lid (case d of None \<Rightarrow> today | Some x \<Rightarrow> x) (float_of db p))
                (t_price_history db) = Some r \<longrightarrow>
              record_price today lid p d hint db = (Inr (ph_id r), db))
       \<and> (lid \<in> set (map l_id (t_listing db)) \<longrightarrow>
              (\<exists>i db1. record_price today lid p d hint db = (Inr i, db1)))
       \<and> (\<forall>i db1. record_price today lid p d hint db = (Inr i, db1) \<longrightarrow>
              record_price today lid p d hint db1 = (Inr i, db1)
            \<and> (length (filter (same_entry lid (case d of None \<Rightarrow> today | Some x \<Rightarrow> x)
                                 (float_of db p))
                         (t_price_history db)) \<le> 1 \<longrightarrow>
               length (filter (same_entry lid (case d of None \<Rightarrow> today | Some x \<Rightarrow> x)
                                 (float_of db p))
                         (t_price_history db1)) = 1))"
proof -
  let ?P = "same_entry lid (date_or today d) (float_of db p)"
  have a: "record_price today lid p d hint db = (Inr (ph_id r), db)"
    if "find ?P (t_price_history db) = Some r" for r
    using that by (rule record_price_existing[OF assms])
  have t: "\<exists>i db1. record_price today lid p d hint db = (Inr i, db1)"
    if l: "lid \<in> set (map l_id (t_listing db))"
  proof (cases "find ?P (t_price_history db)")
    case None
    from record_price_new[OF assms None l, where hint = hint] show ?thesis by blast
  next
    case (Some r)
    from a[OF Some] show ?thesis by blast
  qed
  have b: "record_price today lid p d hint db1 = (Inr i, db1)
            \<and> (length (filter ?P (t_price_history db)) \<le> 1 \<longrightarrow>
               length (filter ?P (t_price_history db1)) = 1)"
    if run: "record_price today lid p d hint db = (Inr i, db1)" for i db1
  proof (cases "find ?P (t_price_history db)")
    case (Some r)
    with a run have eq: "db1 = db" "i = ph_id r" by simp_all
    from find_Some_filter[OF Some] have "1 \<le> length (filter ?P (t_price_history db))"
      by (cases "filter ?P (t_price_history db)") simp_all
    with eq a[OF Some] show ?thesis by auto
  next
    case None
    have l: "lid \<in> set (map l_id (t_listing db))"
    proof (rule ccontr)
      assume "lid \<notin> set (map l_id (t_listing db))"
      from record_price_refused[OF assms None this, where hint = hint] run
      show False by simp
    qed
    let ?row = "\<lparr>ph_id = next_id (map ph_id (t_price_history db)), ph_listing_id = lid,
                  ph_price = float_of db p, ph_recorded_date = date_or today d,
                  ph_event_type = resolved_kind hint p (select_latest_price lid db)\<rparr>"
    from record_price_new[OF assms None l, where hint = hint] run
    have db1: "db1 = db\<lparr>t_price_history := t_price_history db @ [?row]\<rparr>"
      and i: "i = ph_id ?row" by simp_all
    have fl: "float_of db1 = float_of db" by (simp add: db1)
    have hit: "find (same_entry lid (date_or today d) (float_of db1 p)) (t_price_history db1)
                 = Some ?row"
      unfolding fl by (simp add: db1 find_append_miss[OF None] same_entry_def)
    have f1: "faults db1 = []" using assms by (simp add: db1)
    have "record_price today lid p d hint db1 = (Inr i, db1)"
      using record_price_existing[OF f1 hit] by (simp add: i)
    moreover have "length (filter ?P (t_price_history db1)) = 1"
      by (simp add: db1 filter_find_None[OF None] same_entry_def)
    ultimately show ?thesis by simp
  qed
  from a t b show ?thesis unfolding date_or_def by blast
qed

lemma priced_db_simps:
  "faults priced_db = []"
  "float_of priced_db = (\<lambda>p. p)"
  "decimal_of priced_db = (\<lambda>x. x)"
  "set (map l_id (t_listing priced_db)) = {7}"
  "t_price_history priced_db
     = [\<lparr>ph_id = 3, ph_listing_id = 7, ph_price = 500000, ph_recorded_date = 10,
         ph_event_type = ''Initial''\<rparr>]"
  by (simp_all add: priced_db_def empty_db_def listing7_def)

theorem record_price_idempotent_witness:
  "record_price 10 7 500000 None ''Price Change'' priced_db = (Inr 3, priced_db)
   \<and> (\<exists>i db1. record_price 10 7 475000 None ''Price Change'' priced_db = (Inr i, db1)
        \<and> record_price 10 7 475000 None ''Price Change'' db1 = (Inr i, db1)
        \<and> length (filter (same_entry 7 10 475000) (t_price_history db1)) = 1)"
proof -
  note f = priced_db_simps(1)
  have hit: "find (same_entry 7 (case None of None \<Rightarrow> 10 | Some x \<Rightarrow> x)
                     (float_of priced_db 500000))
               (t_price_history priced_db) = Some (hd (t_price_history priced_db))"
    by (simp add: priced_db_simps same_entry_def)
  have few: "length (filter (same_entry 7 (case None of None \<Rightarrow> 10 | Some x \<Rightarrow> x)
                               (float_of priced_db 475000))
               (t_price_history priced_db)) \<le> 1"
    by (simp add: priced_db_simps same_entry_def)
  have l: "7 \<in> set (map l_id (t_listing priced_db))"
    by (simp only: priced_db_simps) simp
  from record_price_idempotent[OF f, where lid = 7 and d = None and today = 10
      and p = 500000 and hint = "''Price Change''"] hit
  have one: "record_price 10 7 500000 None ''Price Change'' priced_db = (Inr 3, priced_db)"
    by (simp add: priced_db_simps)
  from record_price_idempotent[OF f, where lid = 7 and d = None and today = 10
      and p = 475000 and hint = "''Price Change''"] l
  obtain i db1 where run: "record_price 10 7 475000 None ''Price Change'' priced_db = (Inr i, db1)"
    by blast
  from record_price_idempotent[OF f, where lid = 7 and d = None and today = 10
      and p = 475000 and hint = "''Price Change''"] run few
  have "record_price 10 7 475000 None ''Price Change'' db1 = (Inr i, db1)
        \<and> length (filter (same_entry 7 10 475000) (t_price_history db1)) = 1"
    by (simp add: priced_db_simps)
  with one run show ?thesis by blast
qed

text \<open>
  C3 (as amended). Event-kind resolution, when no statement fails and the listing
  exists. A call that stores a row (the ledger holds no row with the same listing
  and date and the price as it is bound) appends one row with a new id, the
  listing, the bound price and the date, and its kind is: for the hint
  \<^verbatim>\<open>"Price Change"\<close>, when the listing has entries, \<^verbatim>\<open>"Price Drop"\<close> if the new price is
  strictly less than the price read back from a most recent entry by recorded
  date, \<^verbatim>\<open>"Price Increase"\<close> if strictly greater, \<^verbatim>\<open>"Price Change"\<close> if equal; every other
  hint (so \<^verbatim>\<open>"Initial"\<close> and \<^verbatim>\<open>"Sold"\<close>) as given; and the hint as given when the listing
  has no entry. A call that finds a row with the same listing, date and price
  stores nothing and returns that row, whose kind stays what it was.
\<close>

theorem record_price_event_kind:
  assumes "faults db = []"
    and "lid \<in> set (map l_id (t_listing db))"
  shows "(find (same_entry lid (case d of None \<Rightarrow> today | Some x \<Rightarrow> x) (float_of db p))
            (t_price_history db) = None \<longrightarrow>
          (\<exists>i kind prev.
              prior_price lid db prev
            \<and> i \<notin> set (map ph_id (t_price_history db))
            \<and> record_price today lid p d hint db =
                (Inr i, db\<lparr>t_price_history := t_price_history db @
                   [\<lparr>ph_id = i, ph_listing_id = lid, ph_price = float_of db p,
                     ph_recorded_date = (case d of None \<Rightarrow> today | Some x \<Rightarrow> x),
                     ph_event_type = kind\<rparr>]\<rparr>)
            \<and> kind =
                (case prev of
                   None \<Rightarrow> hint
                 | Some q \<Rightarrow>
                     if hint = ''Price Change''
                     then (if p < q then ''Price Drop''
                           else if q < p then ''Price Increase'' else ''Price Change'')
                     else hint)))
       \<and> (\<forall>r. find (same_entry lid (case d of None \<Rightarrow> today | Some x \<Rightarrow> x) (float_of db p))
                 (t_price_history db) = Some r \<longrightarrow>
              record_price today lid p d hint db = (Inr (ph_id r), db))"
proof (intro conjI impI allI)
  assume "find (same_entry lid (case d of None \<Rightarrow> today | Some x \<Rightarrow> x) (float_of db p))
            (t_price_history db) = None"
  then have n: "find (same_entry lid (date_or today d) (float_of db p)) (t_price_history db) = None"
    by (simp add: date_or_def)
  from record_price_new[OF assms(1) n assms(2), where hint = hint]
       select_latest_price_prior[of lid db] next_id_fresh[of "map ph_id (t_price_history db)"]
  show "\<exists>i kind prev.
              prior_price lid db prev
            \<and> i \<notin> set (map ph_id (t_price_history db))
            \<and> record_price today lid p d hint db =
                (Inr i, db\<lparr>t_price_history := t_price_history db @
                   [\<lparr>ph_id = i, ph_listing_id = lid, ph_price = float_of db p,
                     ph_recorded_date = (case d of None \<Rightarrow> today | Some x \<Rightarrow> x),
                     ph_event_type = kind\<rparr>]\<rparr>)
            \<and> kind =
                (case prev of
                   None \<Rightarrow> hint
                 | Some q \<Rightarrow>
                     if hint = ''Price Change''
                     then (if p < q then ''Price Drop''
                           else if q < p then ''Price Increase'' else ''Price Change'')
                     else hint)"
    unfolding date_or_def resolved_kind_def by blast
next
  fix r
  assume "find (same_entry lid (case d of None \<Rightarrow> today | Some x \<Rightarrow> x) (float_of db p))
            (t_price_history db) = Some r"
  then have "find (same_entry lid (date_or today d) (float_of db p)) (t_price_history db) = Some r"
    by (simp add: date_or_def)
  then show "record_price today lid p d hint db = (Inr (ph_id r), db)"
    by (rule record_price_existing[OF assms(1)])
qed

lemma listed_db_simps:
  "faults listed_db = []"
  "float_of listed_db = (\<lambda>p. p)"
  "decimal_of listed_db = (\<lambda>x. x)"
  "set (map l_id (t_listing listed_db)) = {7}"
  "t_price_history listed_db
     = [\<lparr>ph_id = 3, ph_listing_id = 7, ph_price = 450000, ph_recorded_date = 5,
         ph_event_type = ''Initial''\<rparr>,
        \<lparr>ph_id = 4, ph_listing_id = 7, ph_price = 500000, ph_recorded_date = 30,
         ph_event_type = ''Price Increase''\<rparr>,
        \<lparr>ph_id = 5, ph_listing_id = 7, ph_price = 475000, ph_recorded_date = 20,
         ph_event_type = ''Price Drop''\<rparr>]"
  by (simp_all add: listed_db_def empty_db_def listing7_def)

text \<open>In the example the most recent entry by date is neither the first nor the
  last row of the ledger.\<close>

lemma listed_db_prior: "prior_price 7 listed_db prev \<Longrightarrow> prev = Some 500000"
  by (cases prev) (auto simp: prior_price_def is_latest_def listed_db_simps)

theorem record_price_event_kind_witness:
  "(\<exists>i. record_price 25 7 475000 None ''Price Change'' listed_db =
        (Inr i, listed_db\<lparr>t_price_history := t_price_history listed_db @
           [\<lparr>ph_id = i, ph_listing_id = 7, ph_price = 475000, ph_recorded_date = 25,
             ph_event_type = ''Price Drop''\<rparr>]\<rparr>))
   \<and> (\<exists>i. record_price 25 7 525000 None ''Price Change'' listed_db =
        (Inr i, listed_db\<lparr>t_price_history := t_price_history listed_db @
           [\<lparr>ph_id = i, ph_listing_id = 7, ph_price = 525000, ph_recorded_date = 25,
             ph_event_type = ''Price Increase''\<rparr>]\<rparr>))
   \<and> (\<exists>i. record_price 25 7 475000 None ''Sold'' listed_db =
        (Inr i, listed_db\<lparr>t_price_history := t_price_history listed_db @
           [\<lparr>ph_id = i, ph_listing_id = 7, ph_price = 475000, ph_recorded_date = 25,
             ph_event_type = ''Sold''\<rparr>]\<rparr>))"
proof -
  note f = listed_db_simps(1)
  have l: "7 \<in> set (map l_id (t_listing listed_db))"
    by (simp only: listed_db_simps) simp
  have n1: "find (same_entry 7 (case None of None \<Rightarrow> 25 | Some x \<Rightarrow> x) (float_of listed_db 475000))
              (t_price_history listed_db) = None"
    and n2: "find (same_entry 7 (case None of None \<Rightarrow> 25 | Some x \<Rightarrow> x) (float_of listed_db 525000))
              (t_price_history listed_db) = None"
    by (simp_all add: listed_db_simps same_entry_def)
  from record_price_event_kind[OF f l, where d = None and today = 25 and p = 475000 and hint = "''Price Change''"] n1
  have a: "\<exists>i. record_price 25 7 475000 None ''Price Change'' listed_db =
        (Inr i, listed_db\<lparr>t_price_history := t_price_history listed_db @
           [\<lparr>ph_id = i, ph_listing_id = 7, ph_price = 475000, ph_recorded_date = 25,
             ph_event_type = ''Price Drop''\<rparr>]\<rparr>)"
    by (auto dest!: listed_db_prior simp: listed_db_simps(2))
  from record_price_event_kind[OF f l, where d = None and today = 25 and p = 525000 and hint = "''Price Change''"] n2
  have b: "\<exists>i. record_price 25 7 525000 None ''Price Change'' listed_db =
        (Inr i, listed_db\<lparr>t_price_history := t_price_history listed_db @
           [\<lparr>ph_id = i, ph_listing_id = 7, ph_price = 525000, ph_recorded_date = 25,
             ph_event_type = ''Price Increase''\<rparr>]\<rparr>)"
    by (auto dest!: listed_db_prior simp: listed_db_simps(2))
  from record_price_event_kind[OF f l, where d = None and today = 25 and p = 475000 and hint = "''Sold''"] n1
  have c: "\<exists>i. record_price 25 7 475000 None ''Sold'' listed_db =
        (Inr i, listed_db\<lparr>t_price_history := t_price_history listed_db @
           [\<lparr>ph_id = i, ph_listing_id = 7, ph_price = 475000, ph_recorded_date = 25,
             ph_event_type = ''Sold''\<rparr>]\<rparr>)"
    by (auto dest!: listed_db_prior simp: listed_db_simps(2))
  from a b c show ?thesis by simp
qed

text \<open>The claim as stated fails on a call that finds its row: the listing was
  entered at 500000 on day 10, sold at 475000 on day 20 and entered again at
  500000 on day 30. A call with the hint \<^verbatim>\<open>"Price Change"\<close> at 475000 for day 20
  returns the row of the sale and leaves it as it is, of kind \<^verbatim>\<open>"Sold"\<close>; the price is
  strictly less than the price 500000 of the most recent entry, and of the entry
  before day 20, and no row of kind \<^verbatim>\<open>"Price Drop"\<close> is stored.\<close>

theorem record_price_found_row_counterexample:
  "record_price 20 7 475000 (Some 20) ''Price Change'' ledger_db = (Inr 4, ledger_db)
   \<and> t_price_history ledger_db
       = [\<lparr>ph_id = 3, ph_listing_id = 7, ph_price = 500000, ph_recorded_date = 10,
           ph_event_type = ''Initial''\<rparr>,
          \<lparr>ph_id = 4, ph_listing_id = 7, ph_price = 475000, ph_recorded_date = 20,
           ph_event_type = ''Sold''\<rparr>,
          \<lparr>ph_id = 5, ph_listing_id = 7, ph_price = 500000, ph_recorded_date = 30,
           ph_event_type = ''Price Increase''\<rparr>]
   \<and> select_latest_price 7 ledger_db = Some 500000"
proof -
  have f: "faults ledger_db = []" by (simp add: ledger_db_def empty_db_def)
  have ph: "t_price_history ledger_db
       = [\<lparr>ph_id = 3, ph_listing_id = 7, ph_price = 500000, ph_recorded_date = 10,
           ph_event_type = ''Initial''\<rparr>,
          \<lparr>ph_id = 4, ph_listing_id = 7, ph_price = 475000, ph_recorded_date = 20,
           ph_event_type = ''Sold''\<rparr>,
          \<lparr>ph_id = 5, ph_listing_id = 7, ph_price = 500000, ph_recorded_date = 30,
           ph_event_type = ''Price Increase''\<rparr>]"
    by (simp add: ledger_db_def empty_db_def)
  have fl: "float_of ledger_db = (\<lambda>p. p)" "decimal_of ledger_db = (\<lambda>x. x)"
    "ties_newest ledger_db = False"
    by (simp_all add: ledger_db_def empty_db_def)
  have hit: "find (same_entry 7 (date_or 20 (Some 20)) (float_of ledger_db 475000))
               (t_price_history ledger_db)
             = Some \<lparr>ph_id = 4, ph_listing_id = 7, ph_price = 475000, ph_recorded_date = 20,
                      ph_event_type = ''Sold''\<rparr>"
    by (simp add: ph fl same_entry_def)
  from record_price_existing[OF f hit, where hint = "''Price Change''"]
  have "record_price 20 7 475000 (Some 20) ''Price Change'' ledger_db = (Inr 4, ledger_db)"
    by simp
  moreover have "select_latest_price 7 ledger_db = Some 500000"
    by (simp add: select_latest_price_def ph fl)
  ultimately show ?thesis using ph by simp
qed

section \<open>Entity resolver\<close>

lemma goc_absent:
  "\<not> truthy name \<Longrightarrow> \<not> truthy address \<Longrightarrow>
   get_or_create_building name address nb db = (Inr None, db)"
  by (simp add: get_or_create_building_def ret_def)

lemma goc_by_name:
  assumes "faults db = []" and "name_match name db = Some b"
  shows "get_or_create_building name address nb db = (Inr (Some (b_id b)), db)"
  using assms
  by (auto simp: get_or_create_building_def name_match_def truthy_def if_given_def and_then_def
      execute_ok ret_def select_building_by_name_def split: option.splits if_splits)

lemma goc_by_address:
  assumes "faults db = []" and "name_match name db = None" and "address_match address db = Some b"
  shows "get_or_create_building name address nb db = (Inr (Some (b_id b)), db)"
  using assms
  by (auto simp: get_or_create_building_def name_match_def address_match_def truthy_def
      if_given_def and_then_def execute_ok ret_def select_building_by_name_def
      select_building_by_address_def split: option.splits if_splits)

lemma goc_create:
  assumes "faults db = []" and "name_match name db = None" and "address_match address db = None"
    and "truthy name \<or> truthy address"
  shows "get_or_create_building name address nb db =
           (Inr (Some (b_id (new_building name address nb db))),
            db\<lparr>t_building := t_building db @ [new_building name address nb db]\<rparr>)"
  using assms
  by (auto simp: get_or_create_building_def name_match_def address_match_def truthy_def
      if_given_def and_then_def execute_ok execute_insert_ok ret_def select_building_by_name_def
      select_building_by_address_def insert_building_def Let_def new_building_def
      split: option.splits if_splits)

lemma new_building_name: "truthy name \<Longrightarrow> Some (b_name (new_building name address nb db)) = name"
  by (auto simp: new_building_def truthy_def or_else_def split: option.splits)

lemma goc_same_name_again:
  assumes f: "faults db = []" and t: "truthy name"
    and first: "get_or_create_building name address nb db = (Inr (Some i), db1)"
    and how: "name_match name db \<noteq> None \<or> address_match address db = None"
  shows "get_or_create_building name address2 nb2 db1 = (Inr (Some i), db1)"
proof (cases "name_match name db")
  case (Some b)
  with f first have "db1 = db" "i = b_id b" by (simp_all add: goc_by_name)
  with f Some show ?thesis by (simp add: goc_by_name)
next
  case None
  with how have am: "address_match address db = None" by simp
  let ?row = "new_building name address nb db"
  from goc_create[OF f None am] t first
  have db1: "db1 = db\<lparr>t_building := t_building db @ [?row]\<rparr>" and i: "i = b_id ?row"
    by simp_all
  from t obtain n where n: "name = Some n" "n \<noteq> []"
    by (auto simp: truthy_def split: option.splits)
  from None n have miss: "find (\<lambda>b. b_name b = n) (t_building db) = None"
    by (simp add: name_match_def)
  from new_building_name[OF t] n have "b_name ?row = n" by simp
  with miss n have "name_match name db1 = Some ?row"
    by (simp add: name_match_def db1 find_append_miss)
  moreover from f have "faults db1 = []" by (simp add: db1)
  ultimately show ?thesis by (simp add: goc_by_name i)
qed

lemma goc_none_iff:
  assumes "faults db = []"
  shows "(fst (get_or_create_building name address nb db) = Inr None)
           = (\<not> truthy name \<and> \<not> truthy address)"
proof (cases "\<not> truthy name \<and> \<not> truthy address")
  case True then show ?thesis by (simp add: goc_absent)
next
  case False
  then have t: "truthy name \<or> truthy address" by auto
  show ?thesis
  proof (cases "name_match name db")
    case (Some b) with assms False show ?thesis by (simp add: goc_by_name)
  next
    case None
    show ?thesis
    proof (cases "address_match address db")
      case (Some b) with assms None False show ?thesis by (simp add: goc_by_address)
    next
      case N2: None
      from goc_create[OF assms None N2 t] False show ?thesis by simp
    qed
  qed
qed

lemma alpha_db_simps:
  "faults alpha_db = []"
  "name_match (Some ''Beta'') alpha_db = None"
  "name_match (Some ''Alpha'') alpha_db = Some \<lparr>b_id = 1, b_name = ''Alpha'', b_address = ''1 Main St'', b_neighborhood_id = None,
       b_city = ''Victoria''\<rparr>"
  "address_match (Some ''1 Main St'') alpha_db = Some \<lparr>b_id = 1, b_name = ''Alpha'', b_address = ''1 Main St'', b_neighborhood_id = None,
       b_city = ''Victoria''\<rparr>"
  "address_match (Some ''2 Oak St'') alpha_db = None"
  by (simp_all add: alpha_db_def empty_db_def name_match_def address_match_def)

text \<open>
  C7 (as amended). When no statement fails, \<^verbatim>\<open>_get_or_create_building\<close> returns
  \<^verbatim>\<open>None\<close> exactly when neither a name nor an address is given; a building whose
  name matches is returned first; without a name match, a building whose
  address matches the given address is returned; only when both lookups miss is
  a new building inserted, with a fresh id. Two calls with the same name yield
  the same building id, whatever the addresses, provided the first call found
  the building by its name or created it. (When the first call resolves by
  address to a building of another name, no building has the name afterwards,
  and a second call with a new address creates one: the counterexample.)
\<close>

theorem get_or_create_building_resolution:
  assumes "faults db = []"
  shows "((fst (get_or_create_building name address nb db) = Inr None)
            = (\<not> truthy name \<and> \<not> truthy address))
       \<and> (\<forall>b. name_match name db = Some b \<longrightarrow>
             get_or_create_building name address nb db = (Inr (Some (b_id b)), db))
       \<and> (\<forall>b. name_match name db = None \<and> address_match address db = Some b \<longrightarrow>
             get_or_create_building name address nb db = (Inr (Some (b_id b)), db))
       \<and> (name_match name db = None \<and> address_match address db = None
             \<and> (truthy name \<or> truthy address) \<longrightarrow>
           (\<exists>row. get_or_create_building name address nb db
                     = (Inr (Some (b_id row)), db\<lparr>t_building := t_building db @ [row]\<rparr>)
                \<and> b_id row \<notin> set (map b_id (t_building db))))
       \<and> (\<forall>i db1 address2 nb2.
             truthy name
             \<and> get_or_create_building name address nb db = (Inr (Some i), db1)
             \<and> (name_match name db \<noteq> None \<or> address_match address db = None) \<longrightarrow>
             get_or_create_building name address2 nb2 db1 = (Inr (Some i), db1))"
proof (intro conjI allI impI)
  show "(fst (get_or_create_building name address nb db) = Inr None)
          = (\<not> truthy name \<and> \<not> truthy address)"
    by (rule goc_none_iff[OF assms])
next
  fix b assume "name_match name db = Some b"
  then show "get_or_create_building name address nb db = (Inr (Some (b_id b)), db)"
    by (rule goc_by_name[OF assms])
next
  fix b assume "name_match name db = None \<and> address_match address db = Some b"
  then show "get_or_create_building name address nb db = (Inr (Some (b_id b)), db)"
    by (simp add: goc_by_address[OF assms])
next
  assume h: "name_match name db = None \<and> address_match address db = None
               \<and> (truthy name \<or> truthy address)"
  let ?row = "new_building name address nb db"
  have "get_or_create_building name address nb db
          = (Inr (Some (b_id ?row)), db\<lparr>t_building := t_building db @ [?row]\<rparr>)"
    using h by (simp add: goc_create[OF assms])
  moreover have "b_id ?row \<notin> set (map b_id (t_building db))"
    by (simp only: new_building_def building_row.simps next_id_fresh not_False_eq_True)
  ultimately show "\<exists>row. get_or_create_building name address nb db
                     = (Inr (Some (b_id row)), db\<lparr>t_building := t_building db @ [row]\<rparr>)
                \<and> b_id row \<notin> set (map b_id (t_building db))"
    by blast
next
  fix i db1 address2 nb2
  assume "truthy name
             \<and> get_or_create_building name address nb db = (Inr (Some i), db1)
             \<and> (name_match name db \<noteq> None \<or> address_match address db = None)"
  then show "get_or_create_building name address2 nb2 db1 = (Inr (Some i), db1)"
    using goc_same_name_again[OF assms] by blast
qed

theorem get_or_create_building_resolution_witness:
  "get_or_create_building (Some ''Alpha'') (Some ''9 Elm St'') None alpha_db
     = (Inr (Some 1), alpha_db)
   \<and> get_or_create_building (Some ''Beta'') (Some ''1 Main St'') None alpha_db
     = (Inr (Some 1), alpha_db)
   \<and> get_or_create_building (Some ''Alpha'') (Some ''2 Oak St'') None alpha_db
     = (Inr (Some 1), alpha_db)"
  using get_or_create_building_resolution[of alpha_db "Some ''Alpha''" "Some ''9 Elm St''" None]
    get_or_create_building_resolution[of alpha_db "Some ''Beta''" "Some ''1 Main St''" None]
  by (simp add: alpha_db_simps truthy_def)

theorem get_or_create_building_same_name_counterexample:
  "get_or_create_building (Some ''Beta'') (Some ''1 Main St'') None alpha_db
     = (Inr (Some 1), alpha_db)
   \<and> fst (get_or_create_building (Some ''Beta'') (Some ''2 Oak St'') None alpha_db)
     = Inr (Some 2)"
  by (simp add: goc_by_address goc_create alpha_db_simps truthy_def new_building_def)
     (simp add: alpha_db_def empty_db_def next_id_def)

section \<open>Listing lifecycle manager\<close>

lemma goc_total:
  assumes "faults db = []"
  shows "\<exists>r bs. get_or_create_building name address nb db = (Inr r, db\<lparr>t_building := bs\<rparr>)"
proof (cases "truthy name \<or> truthy address")
  case False
  then have "get_or_create_building name address nb db = (Inr None, db\<lparr>t_building := t_building db\<rparr>)"
    by (simp add: goc_absent)
  then show ?thesis by blast
next
  case t: True
  show ?thesis
  proof (cases "name_match name db")
    case (Some b)
    then have "get_or_create_building name address nb db
                 = (Inr (Some (b_id b)), db\<lparr>t_building := t_building db\<rparr>)"
      by (simp add: goc_by_name[OF assms])
    then show ?thesis by blast
  next
    case None
    show ?thesis
    proof (cases "address_match address db")
      case (Some b)
      then have "get_or_create_building name address nb db
                 = (Inr (Some (b_id b)), db\<lparr>t_building := t_building db\<rparr>)"
        by (simp add: goc_by_address[OF assms None])
      then show ?thesis by blast
    next
      case N2: None
      from goc_create[OF assms None N2 t] show ?thesis by blast
    qed
  qed
qed

lemma record_price_total:
  assumes "faults db = []" and "lid \<in> set (map l_id (t_listing db))"
  shows "\<exists>i. record_price today lid p d hint db =
           (Inr i,
            if find (same_entry lid (date_or today d) (float_of db p)) (t_price_history db) = None
            then db\<lparr>t_price_history := t_price_history db @
                   [\<lparr>ph_id = i, ph_listing_id = lid, ph_price = float_of db p,
                     ph_recorded_date = date_or today d,
                     ph_event_type = resolved_kind hint p (select_latest_price lid db)\<rparr>]\<rparr>
            else db)"
proof (cases "find (same_entry lid (date_or today d) (float_of db p)) (t_price_history db)")
  case None
  from record_price_new[OF assms(1) None assms(2), where hint = hint] None show ?thesis by simp
next
  case (Some r)
  from record_price_existing[OF assms(1) Some, where hint = hint] Some show ?thesis by simp
qed

lemma record_if_changed_run:
  assumes "faults db = []" and "lid \<in> set (map l_id (t_listing db))"
  shows "\<exists>db'. record_if_changed today lid price db
                 = (Inr (price_given price \<and> select_latest_price lid db \<noteq> price), db')
           \<and> faults db' = []
           \<and> t_listing db' = t_listing db \<and> t_tracking_event db' = t_tracking_event db
           \<and> (if price_given price \<and> select_latest_price lid db \<noteq> price
                  \<and> (\<forall>p. price = Some p \<longrightarrow>
                        find (same_entry lid today (float_of db p)) (t_price_history db) = None)
               then \<exists>row. t_price_history db' = t_price_history db @ [row]
                      \<and> ph_listing_id row = lid
                      \<and> Some (ph_price row) = map_option (float_of db) price
                      \<and> ph_recorded_date row = today
               else t_price_history db' = t_price_history db)"
proof (cases "price_given price \<and> select_latest_price lid db \<noteq> price")
  case False
  then have "record_if_changed today lid price db = (Inr False, db)"
    using assms
    by (auto simp: record_if_changed_def price_given_def and_then_execute_ok ret_def
        split: option.splits)
  with False assms show ?thesis by simp
next
  case True
  then obtain p where p: "price = Some p" "p \<noteq> 0" "select_latest_price lid db \<noteq> Some p"
    by (auto simp: price_given_def split: option.splits)
  from record_price_total[OF assms, of today p None "''Price Change''"]
  obtain i where run: "record_price today lid p None ''Price Change'' db =
           (Inr i,
            if find (same_entry lid today (float_of db p)) (t_price_history db) = None
            then db\<lparr>t_price_history := t_price_history db @
                   [\<lparr>ph_id = i, ph_listing_id = lid, ph_price = float_of db p,
                     ph_recorded_date = today,
                     ph_event_type = resolved_kind ''Price Change'' p (select_latest_price lid db)\<rparr>]\<rparr>
            else db)"
    by (auto simp: date_or_def)
  have "record_if_changed today lid price db = (Inr True, snd (record_price today lid p None ''Price Change'' db))"
    using assms p
    by (auto simp: record_if_changed_def and_then_def execute_ok ret_def run
        split: option.splits)
  with True p assms show ?thesis by (simp add: run)
qed

lemma select_latest_price_frame [simp]:
  "select_latest_price lid (db\<lparr>t_building := bs\<rparr>) = select_latest_price lid db"
  "select_latest_price lid (db\<lparr>t_listing := ls\<rparr>) = select_latest_price lid db"
  by (simp_all add: select_latest_price_def)

lemma select_listing_frame [simp]:
  "select_listing_by_mls mls (db\<lparr>t_building := bs\<rparr>) = select_listing_by_mls mls db"
  by (simp add: select_listing_by_mls_def)

lemma select_listing_member:
  "select_listing_by_mls mls db = Some lid \<Longrightarrow> lid \<in> set (map l_id (t_listing db))"
  by (auto simp: select_listing_by_mls_def dest!: find_SomeD)

lemma update_listing_ids:
  "map l_id (t_listing (snd (update_listing lid bid data now db))) = map l_id (t_listing db)"
  by (simp add: update_listing_def comp_def)

text \<open>
  C4 (as amended). An upsert of an MLS number that exists, when no statement
  fails: \<^verbatim>\<open>price_recorded\<close> is true exactly when the record's price is given (present
  and not zero) and differs from the current price of the listing, which is the
  price read back from a most recent entry by recorded date; a listing without
  entries has no current price, which counts as different. A row is written
  exactly when, in addition, the ledger holds no row for that listing, today and
  that price as it is bound: then exactly one row is appended, for the listing,
  at the bound price, dated today; otherwise the ledger is left as it is. So an
  upsert whose price equals the current price gives \<^verbatim>\<open>price_recorded = False\<close> and
  leaves the ledger unchanged.
\<close>

theorem upsert_existing_price_recorded:
  assumes f: "faults db = []"
    and m: "d_mls_number data = Some mls" "mls \<noteq> []"
    and s: "select_listing_by_mls mls db = Some lid"
  shows "\<exists>res db' prev.
           create_or_update_listing today now data db = (Inr res, db')
         \<and> r_is_new res = False \<and> r_listing_id res = lid
         \<and> prior_price lid db prev
         \<and> r_price_recorded res = (price_given (d_price data) \<and> prev \<noteq> d_price data)
         \<and> (if r_price_recorded res
                \<and> (\<forall>p. d_price data = Some p \<longrightarrow>
                       find (same_entry lid today (float_of db p)) (t_price_history db) = None)
             then \<exists>row. t_price_history db' = t_price_history db @ [row]
                    \<and> ph_listing_id row = lid
                    \<and> Some (ph_price row) = map_option (float_of db) (d_price data)
                    \<and> ph_recorded_date row = today
             else t_price_history db' = t_price_history db)"
proof -
  obtain bid bs where g: "get_or_create_building (d_building_name data) (d_address data)
                            (d_neighborhood data) db = (Inr bid, db\<lparr>t_building := bs\<rparr>)"
    using goc_total[OF f] by blast
  let ?db2 = "snd (update_listing lid bid data now (db\<lparr>t_building := bs\<rparr>))"
  have f2: "faults ?db2 = []" using f by (simp add: update_listing_def)
  have ph2: "t_price_history ?db2 = t_price_history db" by (simp add: update_listing_def)
  have fl2: "float_of ?db2 = float_of db" by (simp add: update_listing_def)
  have lp2: "select_latest_price lid ?db2 = select_latest_price lid db"
    by (simp add: update_listing_def)
  have l2: "lid \<in> set (map l_id (t_listing ?db2))"
    using select_listing_member[OF s] by (simp only: update_listing_ids) simp
  from record_if_changed_run[OF f2 l2, of today "d_price data"]
  obtain db3 where r: "record_if_changed today lid (d_price data) ?db2
                 = (Inr (price_given (d_price data) \<and> select_latest_price lid db \<noteq> d_price data), db3)"
    and f3: "faults db3 = []"
    and ph3: "(if price_given (d_price data) \<and> select_latest_price lid db \<noteq> d_price data
                  \<and> (\<forall>p. d_price data = Some p \<longrightarrow>
                        find (same_entry lid today (float_of db p)) (t_price_history db) = None)
               then \<exists>row. t_price_history db3 = t_price_history db @ [row]
                      \<and> ph_listing_id row = lid
                      \<and> Some (ph_price row) = map_option (float_of db) (d_price data)
                      \<and> ph_recorded_date row = today
               else t_price_history db3 = t_price_history db)"
    unfolding ph2 lp2 fl2 by blast
  define ev where "ev = db3\<lparr>t_tracking_event := t_tracking_event db3 @
      [\<lparr>te_id = next_id (map te_id (t_tracking_event db3)), te_listing_id = lid,
        te_event_type = ''Updated'',
        te_details = ''Updated from '' @ get_default (d_source_platform data) ''None''\<rparr>]\<rparr>"
  have run: "create_or_update_listing today now data db =
      (Inr \<lparr>r_success = True, r_listing_id = lid, r_mls_number = mls, r_is_new = False,
            r_price_recorded = (price_given (d_price data) \<and> select_latest_price lid db \<noteq> d_price data),
            r_message = ''Listing updated''\<rparr>, ev)"
    using f m s f2 f3
    by (simp add: create_or_update_listing_def and_then_def execute_ok g
        execute_update_ok r execute_insert_ok insert_tracking_event_def Let_def ret_def ev_def)
  have ph4: "t_price_history ev = t_price_history db3" by (simp add: ev_def)
  show ?thesis
    apply (rule exI[where x = "\<lparr>r_success = True, r_listing_id = lid, r_mls_number = mls,
            r_is_new = False,
            r_price_recorded = (price_given (d_price data) \<and> select_latest_price lid db \<noteq> d_price data),
            r_message = ''Listing updated''\<rparr>"])
    apply (rule exI[where x = ev])
    apply (rule exI[where x = "select_latest_price lid db"])
    using run ph3 select_latest_price_prior[of lid db]
    apply (simp add: ph4)
    done
qed

lemma listed_db_select: "select_listing_by_mls ''R1'' listed_db = Some 7"
  by (simp add: listed_db_def empty_db_def listing7_def select_listing_by_mls_def)

theorem upsert_existing_price_recorded_witness:
  "(\<exists>res db'. create_or_update_listing 20 99 data_r1 listed_db = (Inr res, db')
      \<and> r_price_recorded res \<and> t_price_history db' = t_price_history listed_db)
   \<and> (\<exists>res db'. create_or_update_listing 20 99 (data_r1\<lparr>d_price := Some 500000\<rparr>) listed_db
                   = (Inr res, db')
      \<and> \<not> r_price_recorded res \<and> t_price_history db' = t_price_history listed_db)
   \<and> (\<exists>res db' row. create_or_update_listing 25 99 data_r1 listed_db = (Inr res, db')
      \<and> r_price_recorded res \<and> t_price_history db' = t_price_history listed_db @ [row]
      \<and> ph_listing_id row = 7 \<and> ph_price row = 475000 \<and> ph_recorded_date row = 25)"
proof -
  note f = listed_db_simps(1)
  have m: "d_mls_number data_r1 = Some ''R1''" "''R1'' \<noteq> []"
    "d_mls_number (data_r1\<lparr>d_price := Some 500000\<rparr>) = Some ''R1''"
    "d_price data_r1 = Some 475000"
    by (simp_all add: data_r1_def)
  have hit: "find (same_entry 7 20 (float_of listed_db 475000)) (t_price_history listed_db) \<noteq> None"
    and miss: "find (same_entry 7 25 (float_of listed_db 475000)) (t_price_history listed_db) = None"
    by (simp_all add: listed_db_simps same_entry_def)
  from upsert_existing_price_recorded[OF f m(1,2) listed_db_select, of 20 99] hit
  have a: "\<exists>res db'. create_or_update_listing 20 99 data_r1 listed_db = (Inr res, db')
      \<and> r_price_recorded res \<and> t_price_history db' = t_price_history listed_db"
    by (auto dest!: listed_db_prior simp: m price_given_def)
  from upsert_existing_price_recorded[OF f m(3,2) listed_db_select, of 20 99]
  have b: "\<exists>res db'. create_or_update_listing 20 99 (data_r1\<lparr>d_price := Some 500000\<rparr>) listed_db
                   = (Inr res, db')
      \<and> \<not> r_price_recorded res \<and> t_price_history db' = t_price_history listed_db"
    by (auto dest!: listed_db_prior simp: price_given_def)
  from upsert_existing_price_recorded[OF f m(1,2) listed_db_select, of 25 99] miss
  have c: "\<exists>res db' row. create_or_update_listing 25 99 data_r1 listed_db = (Inr res, db')
      \<and> r_price_recorded res \<and> t_price_history db' = t_price_history listed_db @ [row]
      \<and> ph_listing_id row = 7 \<and> ph_price row = 475000 \<and> ph_recorded_date row = 25"
    by (auto dest!: listed_db_prior simp: m price_given_def listed_db_simps(2))
  from a b c show ?thesis by simp
qed

text \<open>The claim as stated fails where the most recent entry by date is not the
  one recorded last: the listing was entered at 450000 on day 5, raised to 500000
  with the date of day 30 and upserted at 475000 on day 20; the next upsert at
  475000 on day 20 compares with the entry of day 30, reports
  \<^verbatim>\<open>price_recorded = True\<close>, and writes nothing, the row of day 20 being there already.\<close>

theorem upsert_unchanged_price_counterexample:
  "fst (create_or_update_listing 20 99 data_r1 listed_db)
     = Inr \<lparr>r_success = True, r_listing_id = 7, r_mls_number = ''R1'', r_is_new = False,
            r_price_recorded = True, r_message = ''Listing updated''\<rparr>
   \<and> t_price_history (snd (create_or_update_listing 20 99 data_r1 listed_db))
     = t_price_history listed_db"
proof -
  have l: "select_latest_price 7 listed_db = Some 500000"
    by (simp add: select_latest_price_def listed_db_simps)
  have hit: "find (same_entry 7 (date_or 20 None) (float_of listed_db 475000))
               (t_price_history listed_db)
     = Some \<lparr>ph_id = 5, ph_listing_id = 7, ph_price = 475000, ph_recorded_date = 20,
         ph_event_type = ''Price Drop''\<rparr>"
    by (simp add: listed_db_simps same_entry_def)
  let ?db2 = "snd (update_listing 7 None data_r1 99 listed_db)"
  have f2: "faults ?db2 = []" by (simp add: update_listing_def listed_db_simps)
  have hit2: "find (same_entry 7 (date_or 20 None) (float_of ?db2 475000)) (t_price_history ?db2)
     = Some \<lparr>ph_id = 5, ph_listing_id = 7, ph_price = 475000, ph_recorded_date = 20,
         ph_event_type = ''Price Drop''\<rparr>"
    using hit by (simp add: update_listing_def)
  have l2: "select_latest_price 7 ?db2 = Some 500000"
    using l by (simp add: update_listing_def)
  have g: "get_or_create_building None None None listed_db = (Inr None, listed_db)"
    by (simp add: goc_absent truthy_def)
  have rc: "record_if_changed 20 7 (Some 475000) ?db2 = (Inr True, ?db2)"
    by (simp add: record_if_changed_def and_then_def execute_ok f2 l2
        record_price_existing[OF f2 hit2] ret_def)
  have d: "d_mls_number data_r1 = Some ''R1''" "d_price data_r1 = Some 475000"
    "d_building_name data_r1 = None" "d_address data_r1 = None"
    "d_neighborhood data_r1 = None" "d_source_platform data_r1 = None"
    by (simp_all add: data_r1_def)
  define ev where "ev = ?db2\<lparr>t_tracking_event := t_tracking_event ?db2 @
      [\<lparr>te_id = next_id (map te_id (t_tracking_event ?db2)), te_listing_id = 7,
        te_event_type = ''Updated'', te_details = ''Updated from None''\<rparr>]\<rparr>"
  have "create_or_update_listing 20 99 data_r1 listed_db =
     (Inr \<lparr>r_success = True, r_listing_id = 7, r_mls_number = ''R1'', r_is_new = False,
            r_price_recorded = True, r_message = ''Listing updated''\<rparr>, ev)"
    unfolding create_or_update_listing_def d
    by (simp add: and_then_def execute_ok listed_db_simps(1) listed_db_select g
        execute_update_ok f2 rc execute_insert_ok insert_tracking_event_def Let_def ret_def
        ev_def get_default_def)
  moreover have "t_price_history ev = t_price_history listed_db"
    by (simp add: ev_def update_listing_def)
  ultimately show ?thesis by simp
qed

section \<open>Status transition handler\<close>

lemma update_status_missing:
  assumes "faults db = []" and "select_listing_by_mls mls db = None"
  shows "update_status today now mls status sale_price sale_date db = (Inr False, db)"
  using assms by (simp add: update_status_def and_then_execute_ok ret_def)

lemma update_status_found:
  assumes f: "faults db = []" and s: "select_listing_by_mls mls db = Some lid"
  shows "\<exists>db'. update_status today now mls status sale_price sale_date db = (Inr True, db')
           \<and> t_listing db' = map (status_row lid status now) (t_listing db)
           \<and> (if status = ''Sold'' \<and> price_given sale_price
                  \<and> (\<forall>p. sale_price = Some p \<longrightarrow>
                        find (same_entry lid (date_or today sale_date) (float_of db p))
                          (t_price_history db) = None)
               then \<exists>row. t_price_history db' = t_price_history db @ [row]
                      \<and> ph_listing_id row = lid
                      \<and> Some (ph_price row) = map_option (float_of db) sale_price
                      \<and> ph_recorded_date row = date_or today sale_date
                      \<and> ph_event_type row = ''Sold''
               else t_price_history db' = t_price_history db)"
proof -
  define active where "active = (status \<notin> {''Sold'', ''Expired'', ''Cancelled''})"
  define db1 where "db1 = snd (update_listing_status lid status active now db)"
  define d where "d = date_or today sale_date"
  define ev :: "database \<Rightarrow> database" where "ev = (\<lambda>x. x\<lparr>t_tracking_event := t_tracking_event x @
      [\<lparr>te_id = next_id (map te_id (t_tracking_event x)), te_listing_id = lid,
        te_event_type = ''StatusChange'', te_details = ''Status changed to '' @ status\<rparr>]\<rparr>)"
  have d': "(case sale_date of None \<Rightarrow> today | Some x \<Rightarrow> x) = d"
    by (simp add: d_def date_or_def)
  have f1: "faults db1 = []" using f by (simp add: db1_def update_listing_status_def)
  have fl1: "float_of db1 = float_of db" by (simp add: db1_def update_listing_status_def)
  have l1: "t_listing db1 = map (status_row lid status now) (t_listing db)"
    by (simp add: db1_def update_listing_status_def status_row_def active_def)
  have ids: "map l_id (t_listing db1) = map l_id (t_listing db)"
    unfolding l1 by (simp add: status_row_def comp_def)
  have m1: "lid \<in> set (map l_id (t_listing db1))"
    using select_listing_member[OF s] by (simp only: ids)
  have ph1: "t_price_history db1 = t_price_history db"
    by (simp add: db1_def update_listing_status_def)
  have ev: "\<And>x. t_listing (ev x) = t_listing x \<and> t_price_history (ev x) = t_price_history x"
    by (simp add: ev_def)
  have evrun: "\<And>x. faults x = [] \<Longrightarrow>
      and_then (execute_insert (insert_tracking_event lid ''StatusChange''
                        (''Status changed to '' @ status))) (\<lambda>_. ret True) x = (Inr True, ev x)"
    by (simp add: and_then_def execute_insert_ok insert_tracking_event_def Let_def ret_def ev_def)
  have start0: "update_status today now mls status sale_price sale_date db =
      and_then (case sale_price of
                     None \<Rightarrow> ret ()
                   | Some p \<Rightarrow>
                       if p \<noteq> 0 \<and> status = ''Sold''
                       then and_then (record_price today lid p
                              (Some (case sale_date of None \<Rightarrow> today | Some x \<Rightarrow> x)) ''Sold'')
                              (\<lambda>_. ret ())
                       else ret ())
        (\<lambda>_. and_then (execute_insert (insert_tracking_event lid ''StatusChange''
                        (''Status changed to '' @ status))) (\<lambda>_. ret True)) db1"
    using f s
    by (simp add: update_status_def and_then_execute_ok and_then_update_ok db1_def active_def)
  note start = start0[unfolded d']
  show ?thesis
  proof (cases "status = ''Sold'' \<and> price_given sale_price")
    case False
    then have "update_status today now mls status sale_price sale_date db = (Inr True, ev db1)"
      unfolding start using evrun[OF f1]
      by (auto simp: price_given_def split: option.splits)
    with False ev l1 ph1 show ?thesis by auto
  next
    case True
    then obtain p where p: "sale_price = Some p" "p \<noteq> 0" and st: "status = ''Sold''"
      by (auto simp: price_given_def split: option.splits)
    define db2 where "db2 =
        (if find (same_entry lid d (float_of db p)) (t_price_history db) = None
         then db1\<lparr>t_price_history := t_price_history db @
                   [\<lparr>ph_id = next_id (map ph_id (t_price_history db)), ph_listing_id = lid,
                     ph_price = float_of db p, ph_recorded_date = d,
                     ph_event_type = ''Sold''\<rparr>]\<rparr>
         else db1)"
    have "\<exists>i. record_price today lid p (Some d) ''Sold'' db1 = (Inr i, db2)"
    proof (cases "find (same_entry lid d (float_of db p)) (t_price_history db)")
      case None
      then have "find (same_entry lid (date_or today (Some d)) (float_of db1 p))
                   (t_price_history db1) = None"
        by (simp add: ph1 fl1)
      from record_price_new[OF f1 this m1, where hint = "''Sold''"] None show ?thesis
        by (simp add: db2_def ph1 fl1 resolved_kind_other)
    next
      case (Some r)
      then have "find (same_entry lid (date_or today (Some d)) (float_of db1 p))
                   (t_price_history db1) = Some r"
        by (simp add: ph1 fl1)
      from record_price_existing[OF f1 this, where hint = "''Sold''"] Some show ?thesis
        by (simp add: db2_def)
    qed
    then obtain i where run: "record_price today lid p (Some d) ''Sold'' db1 = (Inr i, db2)" ..
    have f2: "faults db2 = []" using f1 by (simp add: db2_def)
    have "update_status today now mls status sale_price sale_date db = (Inr True, ev db2)"
      unfolding start using p st evrun[OF f2]
      by (simp add: and_then_def run ret_def)
    moreover have "t_listing db2 = map (status_row lid status now) (t_listing db)"
      using l1 by (simp add: db2_def)
    moreover have "(if find (same_entry lid d (float_of db p)) (t_price_history db) = None
               then \<exists>row. t_price_history db2 = t_price_history db @ [row]
                      \<and> ph_listing_id row = lid \<and> ph_price row = float_of db p
                      \<and> ph_recorded_date row = d
                      \<and> ph_event_type row = ''Sold''
               else t_price_history db2 = t_price_history db)"
      by (simp add: db2_def ph1)
    ultimately show ?thesis using True p ev by (auto simp: d_def split: if_splits)
  qed
qed

lemma sold_db_simps:
  "faults sold_db = []"
  "float_of sold_db = (\<lambda>p. p)"
  "select_listing_by_mls ''R1'' sold_db = Some 7"
  "select_listing_by_mls ''R9'' sold_db = None"
  "t_price_history sold_db
     = [\<lparr>ph_id = 3, ph_listing_id = 7, ph_price = 500000, ph_recorded_date = 10,
         ph_event_type = ''Initial''\<rparr>]"
  by (simp_all add: sold_db_def priced_db_def empty_db_def listing7_def
      select_listing_by_mls_def)

text \<open>
  C6 (as amended). \<^verbatim>\<open>update_status\<close>, when no statement fails: it returns \<^verbatim>\<open>False\<close>
  exactly when no listing has the MLS number, and then changes nothing. Otherwise
  it returns \<^verbatim>\<open>True\<close>; the listing gets the new status, and \<^verbatim>\<open>is_active\<close> false when the
  status is one of Sold, Expired, Cancelled and true for every other status. When
  the status is \<^verbatim>\<open>"Sold"\<close> and a sale price is given (present and not zero), the
  ledger is called with the hint \<^verbatim>\<open>"Sold"\<close> at that price and the sale date (today when
  absent): if the ledger holds no entry for that listing and date and the price
  as it is bound, one entry of kind \<^verbatim>\<open>"Sold"\<close> is appended, at the bound price; if it
  holds one, nothing is written. In every other case the ledger is left as it is.
\<close>

theorem update_status_effect:
  assumes "faults db = []"
  shows "((fst (update_status today now mls status sale_price sale_date db) = Inr False)
            = (select_listing_by_mls mls db = None))
       \<and> (select_listing_by_mls mls db = None \<longrightarrow>
            update_status today now mls status sale_price sale_date db = (Inr False, db))
       \<and> (\<forall>lid. select_listing_by_mls mls db = Some lid \<longrightarrow>
            (\<exists>db' l.
                update_status today now mls status sale_price sale_date db = (Inr True, db')
              \<and> find (\<lambda>l. l_mls_number l = Some mls) (t_listing db') = Some l
              \<and> l_id l = lid \<and> l_status l = status
              \<and> l_is_active l = (status \<notin> {''Sold'', ''Expired'', ''Cancelled''})
              \<and> (if status = ''Sold'' \<and> price_given sale_price
                     \<and> (\<forall>p. sale_price = Some p \<longrightarrow>
                           find (same_entry lid (case sale_date of None \<Rightarrow> today | Some d \<Rightarrow> d)
                                   (float_of db p))
                             (t_price_history db) = None)
                  then \<exists>row. t_price_history db' = t_price_history db @ [row]
                         \<and> ph_listing_id row = lid
                         \<and> Some (ph_price row) = map_option (float_of db) sale_price
                         \<and> ph_recorded_date row = (case sale_date of None \<Rightarrow> today | Some d \<Rightarrow> d)
                         \<and> ph_event_type row = ''Sold''
                  else t_price_history db' = t_price_history db)))"
proof (intro conjI allI impI)
  show "(fst (update_status today now mls status sale_price sale_date db) = Inr False)
            = (select_listing_by_mls mls db = None)"
  proof (cases "select_listing_by_mls mls db")
    case None with assms show ?thesis by (simp add: update_status_missing)
  next
    case (Some lid)
    from update_status_found[OF assms Some, of today now status sale_price sale_date] Some
    show ?thesis by auto
  qed
next
  assume "select_listing_by_mls mls db = None"
  then show "update_status today now mls status sale_price sale_date db = (Inr False, db)"
    by (rule update_status_missing[OF assms])
next
  fix lid assume s: "select_listing_by_mls mls db = Some lid"
  from update_status_found[OF assms s, of today now status sale_price sale_date]
  obtain db' where run: "update_status today now mls status sale_price sale_date db = (Inr True, db')"
    and l: "t_listing db' = map (status_row lid status now) (t_listing db)"
    and ph: "(if status = ''Sold'' \<and> price_given sale_price
                  \<and> (\<forall>p. sale_price = Some p \<longrightarrow>
                        find (same_entry lid (date_or today sale_date) (float_of db p))
                          (t_price_history db) = None)
               then \<exists>row. t_price_history db' = t_price_history db @ [row]
                      \<and> ph_listing_id row = lid
                      \<and> Some (ph_price row) = map_option (float_of db) sale_price
                      \<and> ph_recorded_date row = date_or today sale_date
                      \<and> ph_event_type row = ''Sold''
               else t_price_history db' = t_price_history db)"
    by blast
  from s obtain l0 where l0: "find (\<lambda>l. l_mls_number l = Some mls) (t_listing db) = Some l0"
    "l_id l0 = lid"
    by (auto simp: select_listing_by_mls_def)
  have "find (\<lambda>l. l_mls_number l = Some mls) (t_listing db')
          = Some (status_row lid status now l0)"
    unfolding l by (subst find_map_same) (simp_all add: status_row_def l0)
  moreover have "l_id (status_row lid status now l0) = lid"
    "l_status (status_row lid status now l0) = status"
    "l_is_active (status_row lid status now l0) = (status \<notin> {''Sold'', ''Expired'', ''Cancelled''})"
    using l0 by (simp_all add: status_row_def)
  ultimately show "\<exists>db' l.
                update_status today now mls status sale_price sale_date db = (Inr True, db')
              \<and> find (\<lambda>l. l_mls_number l = Some mls) (t_listing db') = Some l
              \<and> l_id l = lid \<and> l_status l = status
              \<and> l_is_active l = (status \<notin> {''Sold'', ''Expired'', ''Cancelled''})
              \<and> (if status = ''Sold'' \<and> price_given sale_price
                     \<and> (\<forall>p. sale_price = Some p \<longrightarrow>
                           find (same_entry lid (case sale_date of None \<Rightarrow> today | Some d \<Rightarrow> d)
                                   (float_of db p))
                             (t_price_history db) = None)
                  then \<exists>row. t_price_history db' = t_price_history db @ [row]
                         \<and> ph_listing_id row = lid
                         \<and> Some (ph_price row) = map_option (float_of db) sale_price
                         \<and> ph_recorded_date row = (case sale_date of None \<Rightarrow> today | Some d \<Rightarrow> d)
                         \<and> ph_event_type row = ''Sold''
                  else t_price_history db' = t_price_history db)"
    using run ph unfolding date_or_def by blast
qed

theorem update_status_effect_witness:
  "update_status 10 99 ''R9'' ''Sold'' (Some 470000) (Some 15) sold_db = (Inr False, sold_db)
   \<and> (\<exists>db' l row.
         update_status 10 99 ''R1'' ''Sold'' (Some 470000) (Some 15) sold_db = (Inr True, db')
       \<and> find (\<lambda>l. l_mls_number l = Some ''R1'') (t_listing db') = Some l
       \<and> l_status l = ''Sold'' \<and> l_is_active l = False
       \<and> t_price_history db' = t_price_history sold_db @ [row]
       \<and> ph_price row = 470000 \<and> ph_recorded_date row = 15 \<and> ph_event_type row = ''Sold'')
   \<and> (\<exists>db' l.
         update_status 10 99 ''R1'' ''Pending'' (Some 470000) (Some 15) sold_db = (Inr True, db')
       \<and> find (\<lambda>l. l_mls_number l = Some ''R1'') (t_listing db') = Some l
       \<and> l_status l = ''Pending'' \<and> l_is_active l = True
       \<and> t_price_history db' = t_price_history sold_db)"
proof -
  have f: "faults sold_db = []" by (rule sold_db_simps)
  have miss: "find (same_entry 7 15 470000) (t_price_history sold_db) = None"
    by (simp add: sold_db_simps same_entry_def)
  from update_status_effect[OF f, of 10 99 "''R9''" "''Sold''" "Some 470000" "Some 15"]
  have a: "update_status 10 99 ''R9'' ''Sold'' (Some 470000) (Some 15) sold_db = (Inr False, sold_db)"
    by (simp add: sold_db_simps)
  from update_status_effect[OF f, of 10 99 "''R1''" "''Sold''" "Some 470000" "Some 15"]
  have b: "\<exists>db' l row.
         update_status 10 99 ''R1'' ''Sold'' (Some 470000) (Some 15) sold_db = (Inr True, db')
       \<and> find (\<lambda>l. l_mls_number l = Some ''R1'') (t_listing db') = Some l
       \<and> l_status l = ''Sold'' \<and> l_is_active l = False
       \<and> t_price_history db' = t_price_history sold_db @ [row]
       \<and> ph_price row = 470000 \<and> ph_recorded_date row = 15 \<and> ph_event_type row = ''Sold''"
    by (simp add: sold_db_simps(1-4) miss price_given_def) blast
  from update_status_effect[OF f, of 10 99 "''R1''" "''Pending''" "Some 470000" "Some 15"]
  have c: "\<exists>db' l.
         update_status 10 99 ''R1'' ''Pending'' (Some 470000) (Some 15) sold_db = (Inr True, db')
       \<and> find (\<lambda>l. l_mls_number l = Some ''R1'') (t_listing db') = Some l
       \<and> l_status l = ''Pending'' \<and> l_is_active l = True
       \<and> t_price_history db' = t_price_history sold_db"
    by (simp add: sold_db_simps(1-4)) blast
  from a b c show ?thesis by simp
qed

text \<open>The claim as stated fails where the ledger already holds the sale's listing,
  date and price: a listing entered at 500000 on day 10 that is sold at 500000 the
  same day keeps its single entry of kind \<^verbatim>\<open>"Initial"\<close>; no entry of kind \<^verbatim>\<open>"Sold"\<close> is
  recorded.\<close>

theorem update_status_sold_counterexample:
  "fst (update_status 10 99 ''R1'' ''Sold'' (Some 500000) None sold_db) = Inr True
   \<and> t_price_history (snd (update_status 10 99 ''R1'' ''Sold'' (Some 500000) None sold_db))
     = [\<lparr>ph_id = 3, ph_listing_id = 7, ph_price = 500000, ph_recorded_date = 10,
         ph_event_type = ''Initial''\<rparr>]"
proof -
  from update_status_found[OF sold_db_simps(1) sold_db_simps(3), of 10 99 "''Sold''"
      "Some 500000" None]
  show ?thesis by (auto simp: sold_db_simps(2,5) same_entry_def price_given_def)
qed

section \<open>The boundary operation for prices\<close>

lemma zero_db_simps:
  "faults zero_db = []"
  "float_of zero_db = (\<lambda>p. p)"
  "decimal_of zero_db = (\<lambda>x. x)"
  "find (\<lambda>l. l_mls_number l = Some ''R1'') (t_listing zero_db) = Some listing7"
  "select_latest_price 7 zero_db = Some 0"
  "find (same_entry 7 20 475000) (t_price_history zero_db) = None"
  "next_id (map ph_id (t_price_history zero_db)) = 4"
  "7 \<in> set (map l_id (t_listing zero_db))"
  by (simp_all add: zero_db_def empty_db_def listing7_def select_latest_price_def
      same_entry_def next_id_def)

text \<open>
  C8. The code at a listing whose most recent entry has the price zero: the
  response carries the previous price 0, and neither a change nor a percent
  change, where the claim has the change 475000 - 0 and only the percent change
  undefined. (The test \<^verbatim>\<open>if previous_price:\<close> is false for a zero price as well as for
  an absent one, which leaves the inner test \<^verbatim>\<open>previous_price != 0\<close> without effect.)
\<close>

theorem add_price_zero_previous:
  "fst (add_price 20 ''R1''
          \<lparr>pc_price = 475000, pc_date = None, pc_event_type = ''Price Change'', pc_notes = None\<rparr>
          zero_db)
     = Inr \<lparr>pr_success = True, pr_price_history_id = 4, pr_previous_price = Some 0,
            pr_price_change = None, pr_percent_change = None\<rparr>"
proof -
  have l7: "l_id listing7 = 7" by (simp add: listing7_def)
  have miss: "find (same_entry 7 (date_or 20 None) (float_of zero_db 475000))
                (t_price_history zero_db) = None"
    by (simp add: zero_db_simps)
  show ?thesis
    by (simp add: add_price_def get_listing_def and_then_def execute_ok zero_db_simps(1,4,5,7)
        ret_def l7 price_given_def Let_def
        record_price_new[OF zero_db_simps(1) miss zero_db_simps(8)])
qed

text \<open>With the previous price 500000 and the new price 475000 the response has the
  change -25000 and the percent change -5: on these values the difference, the
  quotient and the product are exact Decimals and the result is an exact float.\<close>

lemma add_price_example:
  "fst (add_price 20 ''R1''
          \<lparr>pc_price = 475000, pc_date = None, pc_event_type = ''Price Change'', pc_notes = None\<rparr>
          sold_db)
     = Inr \<lparr>pr_success = True, pr_price_history_id = 4, pr_previous_price = Some 500000,
            pr_price_change = Some (- 25000), pr_percent_change = Some (- 5)\<rparr>"
proof -
  have l7: "l_id listing7 = 7" by (simp add: listing7_def)
  have miss: "find (same_entry 7 (date_or 20 None) (float_of sold_db 475000))
                (t_price_history sold_db) = None"
    by (simp add: sold_db_simps same_entry_def)
  have s: "find (\<lambda>l. l_mls_number l = Some ''R1'') (t_listing sold_db) = Some listing7"
    "select_latest_price 7 sold_db = Some 500000"
    "next_id (map ph_id (t_price_history sold_db)) = 4"
    "7 \<in> set (map l_id (t_listing sold_db))"
    "context_round sold_db = (\<lambda>p. p)"
    by (simp_all add: sold_db_def priced_db_def empty_db_def listing7_def
        select_latest_price_def next_id_def)
  show ?thesis
    by (simp add: add_price_def get_listing_def and_then_def execute_ok sold_db_simps(1,2) s
        ret_def l7 price_given_def Let_def
        record_price_new[OF sold_db_simps(1) miss s(4)])
qed

section \<open>Writes of one upsert are committed one by one\<close>

lemma upsert_steps:
  assumes "d_mls_number data = Some mls" "mls \<noteq> []"
  shows "create_or_update_listing today now data =
     and_then (upsert_resolve data mls) (\<lambda>found.
     and_then (listing_write now data mls found) (\<lambda>written.
     and_then (price_step today data written) (\<lambda>price_recorded.
     event_step data mls written price_recorded)))"
  using assms
  by (rule_tac ext)
     (simp add: create_or_update_listing_def upsert_resolve_def listing_write_def
        price_step_def event_step_def and_then_def ret_def
        split: prod.splits sum.splits option.splits)

lemma and_then_InlD:
  "and_then m f db = (Inl e, db') \<Longrightarrow>
   m db = (Inl e, db') \<or> (\<exists>x db1. m db = (Inr x, db1) \<and> f x db1 = (Inl e, db'))"
  by (auto simp: and_then_def split: prod.splits sum.splits)

lemma statement_InrD: "statement db = (Inr u, db') \<Longrightarrow> \<exists>fs. db' = db\<lparr>faults := fs\<rparr>"
proof (cases "faults db")
  case Nil
  assume "statement db = (Inr u, db')"
  with Nil have "db' = db\<lparr>faults := []\<rparr>" by (simp add: statement_def)
  then show ?thesis ..
next
  case (Cons f fs)
  assume "statement db = (Inr u, db')"
  with Cons have "db' = db\<lparr>faults := fs\<rparr>" by (simp add: statement_def split: if_splits)
  then show ?thesis ..
qed

lemma statement_tables: "statement db = (r, db') \<Longrightarrow> \<exists>fs. db' = db\<lparr>faults := fs\<rparr>"
proof (cases "faults db")
  case Nil
  assume "statement db = (r, db')"
  with Nil have "db' = db\<lparr>faults := []\<rparr>" by (simp add: statement_def)
  then show ?thesis ..
next
  case (Cons f fs)
  assume "statement db = (r, db')"
  with Cons have "db' = db\<lparr>faults := fs\<rparr>" by (simp add: statement_def split: if_splits)
  then show ?thesis ..
qed

lemma execute_InrD:
  "execute q db = (Inr r, db') \<Longrightarrow> \<exists>fs. db' = db\<lparr>faults := fs\<rparr> \<and> r = q db'"
  unfolding execute_def by (auto dest!: and_then_InrD statement_InrD)

lemma execute_insert_InrD:
  "execute_insert ins db = (Inr i, db') \<Longrightarrow> \<exists>fs. ins (db\<lparr>faults := fs\<rparr>) = Inr (i, db')"
  unfolding execute_insert_def
  by (auto dest!: and_then_InrD statement_InrD split: sum.splits prod.splits)

lemma execute_update_InrD:
  "execute_update upd db = (Inr n, db') \<Longrightarrow> \<exists>fs. upd (db\<lparr>faults := fs\<rparr>) = (n, db')"
  unfolding execute_update_def
  by (auto dest!: and_then_InrD statement_InrD split: prod.splits)

lemma ret_InrD: "ret x db = (Inr y, db') \<Longrightarrow> y = x \<and> db' = db"
  by (simp add: ret_def)

subsection \<open>What an operation leaves as it is\<close>

lemma keepsD: "keeps obs m \<Longrightarrow> m db = (r, db') \<Longrightarrow> obs db' = obs db"
  by (auto simp: keeps_def dest: spec[of _ db])

lemma keeps_ret [simp]: "keeps obs (ret x)"
  by (simp add: keeps_def ret_def)

lemma keeps_and_then:
  "keeps obs m \<Longrightarrow> (\<And>x. keeps obs (f x)) \<Longrightarrow> keeps obs (and_then m f)"
  unfolding keeps_def and_then_def
  by (auto split: prod.splits sum.splits) (metis snd_conv)+

lemma keeps_statement:
  assumes "\<And>db fs. obs (db\<lparr>faults := fs\<rparr>) = obs db"
  shows "keeps obs statement"
  unfolding keeps_def
proof
  fix db
  obtain r db' where s: "statement db = (r, db')" by (cases "statement db")
  from statement_tables[OF s] s assms show "obs (snd (statement db)) = obs db" by auto
qed

lemma keeps_execute:
  assumes "\<And>db fs. obs (db\<lparr>faults := fs\<rparr>) = obs db"
  shows "keeps obs (execute q)"
  unfolding execute_def
  by (rule keeps_and_then[OF keeps_statement[OF assms]]) (simp add: keeps_def)

lemma keeps_execute_insert:
  assumes "\<And>db fs. obs (db\<lparr>faults := fs\<rparr>) = obs db"
    and "\<And>db i db'. ins db = Inr (i, db') \<Longrightarrow> obs db' = obs db"
  shows "keeps obs (execute_insert ins)"
  unfolding execute_insert_def
  by (rule keeps_and_then[OF keeps_statement[OF assms(1)]])
     (auto simp: keeps_def assms(2) split: sum.splits)

lemma keeps_execute_update:
  assumes "\<And>db fs. obs (db\<lparr>faults := fs\<rparr>) = obs db"
    and "\<And>db. obs (snd (upd db)) = obs db"
  shows "keeps obs (execute_update upd)"
  unfolding execute_update_def
proof (rule keeps_and_then[OF keeps_statement[OF assms(1)]])
  fix x :: unit
  show "keeps obs (\<lambda>db. case upd db of (n, db') \<Rightarrow> (Inr n, db'))"
    unfolding keeps_def
  proof
    fix db
    obtain n db' where u: "upd db = (n, db')" by (cases "upd db")
    with assms(2)[of db] show "obs (snd (case upd db of (n, db') \<Rightarrow> (Inr n, db'))) = obs db"
      by simp
  qed
qed

lemma keeps_if_given: "(\<And>v. keeps obs (q v)) \<Longrightarrow> keeps obs (if_given s q)"
  by (simp add: if_given_def split: option.splits)

lemma keeps_goc:
  assumes "\<And>db fs. obs (db\<lparr>faults := fs\<rparr>) = obs db"
    and "\<And>db bs. obs (db\<lparr>t_building := bs\<rparr>) = obs db"
  shows "keeps obs (get_or_create_building name address nb)"
  unfolding get_or_create_building_def Let_def
  by (auto intro!: keeps_and_then keeps_if_given keeps_execute keeps_execute_insert assms(1)
      simp: insert_building_def Let_def assms(2) split: option.splits)

lemma keeps_record_price:
  assumes "\<And>db fs. obs (db\<lparr>faults := fs\<rparr>) = obs db"
    and "\<And>db ps. obs (db\<lparr>t_price_history := ps\<rparr>) = obs db"
  shows "keeps obs (record_price today lid p d hint)"
  unfolding record_price_def Let_def
  by (auto intro!: keeps_and_then keeps_execute keeps_execute_insert assms(1)
      simp: insert_price_history_def Let_def assms(2) split: option.splits if_splits)

lemma keeps_price_step:
  assumes "\<And>db fs. obs (db\<lparr>faults := fs\<rparr>) = obs db"
    and "\<And>db ps. obs (db\<lparr>t_price_history := ps\<rparr>) = obs db"
  shows "keeps obs (price_step today data written)"
  unfolding price_step_def record_if_changed_def record_initial_def
  by (auto intro!: keeps_and_then keeps_execute keeps_record_price assms
      split: option.splits)

lemma keeps_upsert_resolve:
  assumes "\<And>db fs. obs (db\<lparr>faults := fs\<rparr>) = obs db"
    and "\<And>db bs. obs (db\<lparr>t_building := bs\<rparr>) = obs db"
  shows "keeps obs (upsert_resolve data mls)"
  unfolding upsert_resolve_def
  by (auto intro!: keeps_and_then keeps_execute keeps_goc assms)

lemma keeps_listing_write:
  assumes "\<And>db fs. obs (db\<lparr>faults := fs\<rparr>) = obs db"
    and "\<And>db ls. obs (db\<lparr>t_listing := ls\<rparr>) = obs db"
  shows "keeps obs (listing_write now data mls found)"
  unfolding listing_write_def
  by (auto intro!: keeps_and_then keeps_execute_insert keeps_execute_update assms(1)
      simp: insert_listing_def update_listing_def Let_def assms(2) split: option.splits)

subsection \<open>An operation that raises has written nothing\<close>

lemma tables_faults [simp]: "tables (db\<lparr>faults := fs\<rparr>) = tables db"
  by (simp add: tables_def)

lemma fails_clean_keeps: "keeps tables m \<Longrightarrow> fails_clean m"
  by (auto simp: fails_clean_def dest: keepsD)

lemma fails_clean_execute_insert: "fails_clean (execute_insert ins)"
  unfolding fails_clean_def execute_insert_def
  by (auto simp: and_then_def split: prod.splits sum.splits dest!: statement_tables)

lemma fails_clean_execute_update: "fails_clean (execute_update upd)"
  unfolding fails_clean_def execute_update_def
  by (auto simp: and_then_def split: prod.splits sum.splits dest!: statement_tables)

lemma fails_clean_read_then:
  assumes "keeps tables m" and "\<And>x. fails_clean (f x)"
  shows "fails_clean (and_then m f)"
  unfolding fails_clean_def
proof (intro allI impI)
  fix db e db'
  assume "and_then m f db = (Inl e, db')"
  from and_then_InlD[OF this] show "tables db' = tables db"
  proof
    assume "m db = (Inl e, db')"
    from keepsD[OF assms(1) this] show ?thesis .
  next
    assume "\<exists>x db1. m db = (Inr x, db1) \<and> f x db1 = (Inl e, db')"
    then obtain x db1 where a: "m db = (Inr x, db1)" and b: "f x db1 = (Inl e, db')" by blast
    from assms(2)[of x] b have "tables db' = tables db1" by (auto simp: fails_clean_def)
    with keepsD[OF assms(1) a] show ?thesis by simp
  qed
qed

lemma fails_clean_then_ret:
  assumes "fails_clean m"
  shows "fails_clean (and_then m (\<lambda>x. ret (g x)))"
  using assms
  by (auto simp: fails_clean_def ret_def dest!: and_then_InlD)

lemma keeps_tables_execute: "keeps tables (execute q)"
  by (rule keeps_execute) simp

lemma keeps_tables_if_given: "keeps tables (if_given s (\<lambda>v. execute (q v)))"
  by (rule keeps_if_given) (rule keeps_tables_execute)

lemma fails_clean_ret: "fails_clean (ret x)"
  by (simp add: fails_clean_def ret_def)

lemma fails_clean_goc: "fails_clean (get_or_create_building name address nb)"
proof -
  have ins: "fails_clean (and_then
                     (execute_insert (insert_building bn ba nid ''Victoria''))
                     (\<lambda>building_id. ret (Some building_id)))" for bn ba nid
    by (rule fails_clean_then_ret[OF fails_clean_execute_insert])
  have c: "fails_clean (and_then (if_given nb (\<lambda>n. execute (select_neighborhood_by_name n)))
                  (\<lambda>neighborhood_id.
                and_then
                     (execute_insert
                        (insert_building (or_else name (or_else address (or_else name ''Unknown'')))
                           (or_else address (or_else name ''Unknown'')) neighborhood_id ''Victoria''))
                     (\<lambda>building_id. ret (Some building_id))))"
    by (rule fails_clean_read_then[OF keeps_tables_if_given]) (rule ins)
  have b: "fails_clean (and_then (if_given address (\<lambda>a. execute (select_building_by_address a)))
              (\<lambda>by_address.
            case by_address of
              Some i \<Rightarrow> ret (Some i)
            | None \<Rightarrow>
                and_then (if_given nb (\<lambda>n. execute (select_neighborhood_by_name n)))
                  (\<lambda>neighborhood_id.
                and_then
                     (execute_insert
                        (insert_building (or_else name (or_else address (or_else name ''Unknown'')))
                           (or_else address (or_else name ''Unknown'')) neighborhood_id ''Victoria''))
                     (\<lambda>building_id. ret (Some building_id)))))"
    by (rule fails_clean_read_then[OF keeps_tables_if_given])
       (simp add: fails_clean_ret c split: option.splits)
  show ?thesis
    unfolding get_or_create_building_def Let_def
    by (auto intro!: fails_clean_read_then[OF keeps_tables_if_given]
        simp: fails_clean_ret b split: option.splits)
qed

lemma fails_clean_record_price: "fails_clean (record_price today lid p d hint)"
proof -
  have k: "keeps tables (if hint = ''Price Change''
             then and_then (execute (select_latest_price lid)) (\<lambda>prev.
                    ret (case prev of
                           None \<Rightarrow> hint
                         | Some prev_price \<Rightarrow>
                             if p < prev_price then ''Price Drop''
                             else if prev_price < p then ''Price Increase''
                             else hint))
             else ret hint)"
    by (auto intro!: keeps_and_then keeps_tables_execute)
  show ?thesis
    unfolding record_price_def Let_def
  proof (rule fails_clean_read_then[OF keeps_tables_execute])
    fix existing :: "nat option"
    show "fails_clean
           (case existing of
              Some i \<Rightarrow> ret i
            | None \<Rightarrow>
                and_then
                  (if hint = ''Price Change''
                   then and_then (execute (select_latest_price lid)) (\<lambda>prev.
                          ret (case prev of
                                 None \<Rightarrow> hint
                               | Some prev_price \<Rightarrow>
                                   if p < prev_price then ''Price Drop''
                                   else if prev_price < p then ''Price Increase''
                                   else hint))
                   else ret hint)
                  (\<lambda>event_type.
                     execute_insert
                       (insert_price_history lid p (case d of None \<Rightarrow> today | Some d \<Rightarrow> d)
                          event_type)))"
    proof (cases existing)
      case None
      show ?thesis
        unfolding None option.case
        by (rule fails_clean_read_then[OF k]) (rule fails_clean_execute_insert)
    next
      case (Some i)
      show ?thesis unfolding Some option.case by (rule fails_clean_ret)
    qed
  qed
qed

lemma fails_clean_price_step: "fails_clean (price_step today data written)"
  unfolding price_step_def record_if_changed_def record_initial_def
  by (auto simp: fails_clean_ret split: option.splits
      intro!: fails_clean_read_then[OF keeps_tables_execute]
        fails_clean_then_ret[OF fails_clean_record_price])

lemma fails_clean_upsert_resolve: "fails_clean (upsert_resolve data mls)"
  unfolding upsert_resolve_def
  by (rule fails_clean_read_then[OF keeps_tables_execute])
     (rule fails_clean_then_ret[OF fails_clean_goc])

lemma fails_clean_listing_write: "fails_clean (listing_write now data mls found)"
  unfolding listing_write_def
  by (auto split: option.splits
      intro!: fails_clean_then_ret[OF fails_clean_execute_insert]
        fails_clean_then_ret[OF fails_clean_execute_update])

lemma fails_clean_event_step: "fails_clean (event_step data mls written pr)"
  unfolding event_step_def
  by (rule fails_clean_then_ret[OF fails_clean_execute_insert])

lemma fails_cleanD: "fails_clean m \<Longrightarrow> m db = (Inl e, db') \<Longrightarrow> tables db' = tables db"
  by (auto simp: fails_clean_def)

lemma tables_eqD:
  assumes "tables db' = tables db"
  shows "t_building db' = t_building db" "t_listing db' = t_listing db"
    "t_price_history db' = t_price_history db" "t_tracking_event db' = t_tracking_event db"
proof -
  have "t_building (tables db') = t_building (tables db)"
    "t_listing (tables db') = t_listing (tables db)"
    "t_price_history (tables db') = t_price_history (tables db)"
    "t_tracking_event (tables db') = t_tracking_event (tables db)"
    by (simp_all only: assms)
  then show "t_building db' = t_building db" "t_listing db' = t_listing db"
    "t_price_history db' = t_price_history db" "t_tracking_event db' = t_tracking_event db"
    by (simp_all add: tables_def)
qed

subsection \<open>What the steps that succeed have written\<close>

lemma if_given_execute_InrD:
  "if_given s (\<lambda>v. execute (q v)) db = (Inr r, db') \<Longrightarrow>
   \<exists>fs. db' = db\<lparr>faults := fs\<rparr> \<and> (r = None \<or> (\<exists>v. r = q v db'))"
proof (cases "truthy s")
  case False
  assume "if_given s (\<lambda>v. execute (q v)) db = (Inr r, db')"
  with False have "r = None" "db' = db\<lparr>faults := faults db\<rparr>"
    by (auto simp: if_given_def truthy_def ret_def split: option.splits if_splits)
  then show ?thesis by blast
next
  case True
  then obtain v where v: "s = Some v" "v \<noteq> []" by (auto simp: truthy_def split: option.splits)
  assume "if_given s (\<lambda>v. execute (q v)) db = (Inr r, db')"
  with v have "execute (q v) db = (Inr r, db')" by (simp add: if_given_def)
  from execute_InrD[OF this] show ?thesis by blast
qed

lemma select_building_member:
  "select_building_by_name n db = Some i \<Longrightarrow> i \<in> set (map b_id (t_building db))"
  "select_building_by_address a db = Some i \<Longrightarrow> i \<in> set (map b_id (t_building db))"
  by (auto simp: select_building_by_name_def select_building_by_address_def dest!: find_SomeD)

lemma goc_member:
  assumes "get_or_create_building name address nb db = (Inr (Some bid), db1)"
  shows "bid \<in> set (map b_id (t_building db1))"
proof -
  have t: "\<not> (\<not> truthy name \<and> \<not> truthy address)"
  proof
    assume "\<not> truthy name \<and> \<not> truthy address"
    then have "get_or_create_building name address nb db = (Inr None, db)"
      by (simp add: get_or_create_building_def ret_def)
    with assms show False by simp
  qed
  let ?ins = "\<lambda>neighborhood_id.
                and_then
                     (execute_insert
                        (insert_building (or_else name (or_else address (or_else name ''Unknown'')))
                           (or_else address (or_else name ''Unknown'')) neighborhood_id ''Victoria''))
                     (\<lambda>building_id. ret (Some building_id))"
  let ?c = "and_then (if_given nb (\<lambda>n. execute (select_neighborhood_by_name n))) ?ins"
  let ?b = "and_then (if_given address (\<lambda>a. execute (select_building_by_address a)))
              (\<lambda>by_address. case by_address of Some i \<Rightarrow> ret (Some i) | None \<Rightarrow> ?c)"
  have ins: "bid \<in> set (map b_id (t_building y))" if "?ins nid x = (Inr (Some bid), y)" for nid x y
  proof -
    from and_then_InrD[OF that] obtain i z where
      a: "execute_insert
            (insert_building (or_else name (or_else address (or_else name ''Unknown'')))
               (or_else address (or_else name ''Unknown'')) nid ''Victoria'') x = (Inr i, z)"
      and b: "ret (Some i) z = (Inr (Some bid), y)" by blast
    from ret_InrD[OF b] have e: "i = bid" "y = z" by simp_all
    from execute_insert_InrD[OF a] show ?thesis
      by (auto simp: insert_building_def Let_def e)
  qed
  have c: "bid \<in> set (map b_id (t_building y))" if "?c x = (Inr (Some bid), y)" for x y
    using and_then_InrD[OF that] ins by blast
  have b: "bid \<in> set (map b_id (t_building y))" if "?b x = (Inr (Some bid), y)" for x y
  proof -
    from and_then_InrD[OF that] obtain r z where
      a: "if_given address (\<lambda>a. execute (select_building_by_address a)) x = (Inr r, z)"
      and k: "(case r of Some i \<Rightarrow> ret (Some i) | None \<Rightarrow> ?c) z = (Inr (Some bid), y)" by blast
    show ?thesis
    proof (cases r)
      case None
      with k c show ?thesis by simp
    next
      case (Some i)
      with k have e: "i = bid" "y = z" by (simp_all add: ret_def)
      from if_given_execute_InrD[OF a] Some obtain v where
        "Some i = select_building_by_address v z" by auto
      with select_building_member(2)[of v z i] e show ?thesis by simp
    qed
  qed
  note run = assms[unfolded get_or_create_building_def if_not_P[OF t] Let_def]
  from and_then_InrD[OF run] obtain r z where
    a: "if_given name (\<lambda>n. execute (select_building_by_name n)) db = (Inr r, z)"
    and k: "(case r of Some i \<Rightarrow> ret (Some i) | None \<Rightarrow> ?b) z = (Inr (Some bid), db1)" by blast
  show ?thesis
  proof (cases r)
    case None
    with k b show ?thesis by simp
  next
    case (Some i)
    with k have e: "i = bid" "db1 = z" by (simp_all add: ret_def)
    from if_given_execute_InrD[OF a] Some obtain v where
      "Some i = select_building_by_name v z" by auto
    with select_building_member(1)[of v z i] e show ?thesis by simp
  qed
qed

lemma upsert_resolve_found:
  assumes "upsert_resolve data mls db = (Inr found, db1)"
  shows "fst found = select_listing_by_mls mls db1"
    and "\<And>bid. snd found = Some bid \<Longrightarrow> bid \<in> set (map b_id (t_building db1))"
proof -
  from and_then_InrD[OF assms[unfolded upsert_resolve_def]] obtain existing dbA where
    a: "execute (select_listing_by_mls mls) db = (Inr existing, dbA)"
    and a': "and_then (get_or_create_building (d_building_name data) (d_address data)
                 (d_neighborhood data)) (\<lambda>building_id. ret (existing, building_id)) dbA
             = (Inr found, db1)" by blast
  from and_then_InrD[OF a'] obtain bid dbB where
    b: "get_or_create_building (d_building_name data) (d_address data)
          (d_neighborhood data) dbA = (Inr bid, dbB)"
    and b': "ret (existing, bid) dbB = (Inr found, db1)" by blast
  from ret_InrD[OF b'] have e: "found = (existing, bid)" "db1 = dbB" by simp_all
  from execute_InrD[OF a] have ex: "existing = select_listing_by_mls mls dbA" by auto
  have "t_listing dbB = t_listing dbA"
    by (rule keepsD[OF keeps_goc b]) simp_all
  then have "select_listing_by_mls mls dbB = select_listing_by_mls mls dbA"
    by (simp add: select_listing_by_mls_def)
  with ex e show "fst found = select_listing_by_mls mls db1" by simp
  fix i assume "snd found = Some i"
  with e b have "get_or_create_building (d_building_name data) (d_address data)
          (d_neighborhood data) dbA = (Inr (Some i), db1)" by simp
  then show "i \<in> set (map b_id (t_building db1))" by (rule goc_member)
qed

lemma listing_write_written:
  assumes s: "fst found = select_listing_by_mls mls db1"
    and w: "listing_write now data mls found db1 = (Inr written, db2)"
  shows "\<exists>l \<in> set (t_listing db2).
           l_id l = fst written \<and> l_mls_number l = Some mls \<and> l_building_id l = snd found"
proof (cases "fst found")
  case None
  with w obtain lid dbC where
    c: "execute_insert (insert_listing mls (snd found) data now) db1 = (Inr lid, dbC)"
    and c': "ret (lid, True) dbC = (Inr written, db2)"
    by (auto simp: listing_write_def dest: and_then_InrD)
  from ret_InrD[OF c'] have e: "written = (lid, True)" "db2 = dbC" by simp_all
  from execute_insert_InrD[OF c] show ?thesis
    by (auto simp: insert_listing_def Let_def e)
next
  case (Some lid)
  with w obtain n dbC where
    c: "execute_update (update_listing lid (snd found) data now) db1 = (Inr n, dbC)"
    and c': "ret (lid, False) dbC = (Inr written, db2)"
    by (auto simp: listing_write_def dest: and_then_InrD)
  from ret_InrD[OF c'] have e: "written = (lid, False)" "db2 = dbC" by simp_all
  from Some s obtain l0 where
    "find (\<lambda>l. l_mls_number l = Some mls) (t_listing db1) = Some l0" "l_id l0 = lid"
    by (auto simp: select_listing_by_mls_def)
  with find_SomeD[of "\<lambda>l. l_mls_number l = Some mls" "t_listing db1" l0]
  have l0: "l0 \<in> set (t_listing db1)" "l_mls_number l0 = Some mls" "l_id l0 = lid"
    by simp_all
  from execute_update_InrD[OF c] obtain fs where
    u: "update_listing lid (snd found) data now (db1\<lparr>faults := fs\<rparr>) = (n, dbC)" ..
  define g :: "listing_row \<Rightarrow> listing_row" where "g = (\<lambda>l. if l_id l = lid
                     then l\<lparr>l_building_id := snd found,
                            l_unit_number := d_unit_number data,
                            l_status := get_default (d_status data) ''Active'',
                            l_bedrooms := d_bedrooms data,
                            l_bathrooms := d_bathrooms data,
                            l_square_feet := d_square_feet data,
                            l_property_type := d_property_type data,
                            l_listing_date := d_listing_date data,
                            l_days_on_market := d_days_on_market data,
                            l_description := d_description data,
                            l_listing_agent := d_listing_agent data,
                            l_listing_brokerage := d_listing_brokerage data,
                            l_source_url := d_source_url data,
                            l_source_platform := get_default (d_source_platform data) ''Manual'',
                            l_is_active := True,
                            l_last_seen_at := now,
                            l_updated_at := now\<rparr>
                     else l)"
  from u have tl: "t_listing dbC = map g (t_listing db1)"
    by (auto simp: update_listing_def g_def)
  have gl: "l_id (g l0) = lid \<and> l_mls_number (g l0) = Some mls \<and> l_building_id (g l0) = snd found"
    using l0 by (simp add: g_def)
  have "g l0 \<in> set (t_listing dbC)"
    unfolding tl using l0(1) by simp
  with gl e show ?thesis by auto
qed

lemma event_step_written:
  assumes "event_step data mls written pr db3 = (Inr res, db4)"
  shows "\<exists>ev. t_tracking_event db4 = t_tracking_event db3 @ [ev]
              \<and> te_listing_id ev = fst written"
    and "r_listing_id res = fst written" and "r_price_recorded res = pr"
    and "t_building db4 = t_building db3" and "t_listing db4 = t_listing db3"
    and "t_price_history db4 = t_price_history db3"
proof -
  from and_then_InrD[OF assms[unfolded event_step_def]] obtain i z where
    a: "execute_insert
                 (insert_tracking_event (fst written)
                    (if snd written then ''Discovered'' else ''Updated'')
                    ((if snd written then ''Found on '' else ''Updated from '')
                       @ get_default (d_source_platform data) ''None'')) db3 = (Inr i, z)"
    and b: "ret \<lparr>r_success = True, r_listing_id = fst written, r_mls_number = mls,
           r_is_new = snd written, r_price_recorded = pr,
           r_message = (if snd written then ''New listing created'' else ''Listing updated'')\<rparr> z
          = (Inr res, db4)" by blast
  from ret_InrD[OF b] have e: "res = \<lparr>r_success = True, r_listing_id = fst written,
           r_mls_number = mls, r_is_new = snd written, r_price_recorded = pr,
           r_message = (if snd written then ''New listing created'' else ''Listing updated'')\<rparr>"
    "db4 = z" by simp_all
  from e show "r_listing_id res = fst written" "r_price_recorded res = pr" by simp_all
  from execute_insert_InrD[OF a] e
  show "\<exists>ev. t_tracking_event db4 = t_tracking_event db3 @ [ev]
              \<and> te_listing_id ev = fst written"
    "t_building db4 = t_building db3" "t_listing db4 = t_listing db3"
    "t_price_history db4 = t_price_history db3"
    by (auto simp: insert_tracking_event_def Let_def)
qed

lemma upsert_raises_no_event:
  assumes m: "d_mls_number data = Some mls" "mls \<noteq> []"
    and r: "create_or_update_listing today now data db = (Inl e, db')"
  shows "t_tracking_event db' = t_tracking_event db"
proof -
  note r' = r[unfolded upsert_steps[OF m]]
  have k1: "\<And>x y. upsert_resolve data mls db = (x, y) \<Longrightarrow> t_tracking_event y = t_tracking_event db"
    by (rule keepsD[OF keeps_upsert_resolve]) simp_all
  have k2: "\<And>f x y z. listing_write now data mls f z = (x, y)
              \<Longrightarrow> t_tracking_event y = t_tracking_event z"
    by (rule keepsD[OF keeps_listing_write]) simp_all
  have k3: "\<And>w x y z. price_step today data w z = (x, y)
              \<Longrightarrow> t_tracking_event y = t_tracking_event z"
    by (rule keepsD[OF keeps_price_step]) simp_all
  have k4: "\<And>w p y z. event_step data mls w p z = (Inl e, y)
              \<Longrightarrow> t_tracking_event y = t_tracking_event z"
    by (drule fails_cleanD[OF fails_clean_event_step]) (rule tables_eqD)
  from and_then_InlD[OF r'] show ?thesis
  proof
    assume "upsert_resolve data mls db = (Inl e, db')"
    then show ?thesis by (rule k1)
  next
    assume "\<exists>x db1. upsert_resolve data mls db = (Inr x, db1) \<and>
       and_then (listing_write now data mls x) (\<lambda>written.
         and_then (price_step today data written) (\<lambda>price_recorded.
         event_step data mls written price_recorded)) db1 = (Inl e, db')"
    then obtain found db1 where a: "upsert_resolve data mls db = (Inr found, db1)"
      and a': "and_then (listing_write now data mls found) (\<lambda>written.
         and_then (price_step today data written) (\<lambda>price_recorded.
         event_step data mls written price_recorded)) db1 = (Inl e, db')" by blast
    from and_then_InlD[OF a'] show ?thesis
    proof
      assume "listing_write now data mls found db1 = (Inl e, db')"
      from k2[OF this] k1[OF a] show ?thesis by simp
    next
      assume "\<exists>x db2. listing_write now data mls found db1 = (Inr x, db2) \<and>
         and_then (price_step today data x) (\<lambda>price_recorded.
           event_step data mls x price_recorded) db2 = (Inl e, db')"
      then obtain written db2 where b: "listing_write now data mls found db1 = (Inr written, db2)"
        and b': "and_then (price_step today data written) (\<lambda>price_recorded.
           event_step data mls written price_recorded) db2 = (Inl e, db')" by blast
      from and_then_InlD[OF b'] show ?thesis
      proof
        assume "price_step today data written db2 = (Inl e, db')"
        from k3[OF this] k2[OF b] k1[OF a] show ?thesis by simp
      next
        assume "\<exists>x db3. price_step today data written db2 = (Inr x, db3) \<and>
           event_step data mls written x db3 = (Inl e, db')"
        then obtain pr db3 where c: "price_step today data written db2 = (Inr pr, db3)"
          and c': "event_step data mls written pr db3 = (Inl e, db')" by blast
        from k4[OF c'] k3[OF c] k2[OF b] k1[OF a] show ?thesis by simp
      qed
    qed
  qed
qed

text \<open>
  C1 (as amended). The writes of one \<^verbatim>\<open>create_or_update_listing\<close> call are committed
  one by one, each as soon as it is executed, and nothing is rolled back. For a
  call with an MLS number, whatever statements fail:
  \<^item> when the building resolution raises, the call raises and has written nothing;
  \<^item> when the resolution has returned a building, that building is stored; when
    the listing write then raises, the call raises and leaves the tables as the
    resolution left them, the building included;
  \<^item> when the listing write has succeeded, a listing with the call's MLS number
    and that building is stored; when the price step then raises, the call raises
    and leaves the tables as the listing write left them;
  \<^item> when the price step has succeeded and the tracking-event insert raises, the
    call raises and leaves the tables as the price step left them, with the
    building, the listing and the price entry;
  \<^item> when the event insert succeeds too, the call returns, with one more event;
  \<^item> a call that raises has stored no event: building, listing, price entry and
    event are stored together only when no step fails.
\<close>

theorem upsert_writes_stay_committed:
  assumes m: "d_mls_number data = Some mls" "mls \<noteq> []"
  shows "(\<forall>e db1. upsert_resolve data mls db = (Inl e, db1) \<longrightarrow>
            create_or_update_listing today now data db = (Inl e, db1)
          \<and> tables db1 = tables db)
       \<and> (\<forall>found db1. upsert_resolve data mls db = (Inr found, db1) \<longrightarrow>
            (\<forall>bid. snd found = Some bid \<longrightarrow> bid \<in> set (map b_id (t_building db1)))
          \<and> (\<forall>e db2. listing_write now data mls found db1 = (Inl e, db2) \<longrightarrow>
                create_or_update_listing today now data db = (Inl e, db2)
              \<and> tables db2 = tables db1)
          \<and> (\<forall>written db2. listing_write now data mls found db1 = (Inr written, db2) \<longrightarrow>
                (\<exists>l \<in> set (t_listing db2).
                    l_id l = fst written \<and> l_mls_number l = Some mls
                  \<and> l_building_id l = snd found)
              \<and> t_building db2 = t_building db1
              \<and> (\<forall>e db3. price_step today data written db2 = (Inl e, db3) \<longrightarrow>
                    create_or_update_listing today now data db = (Inl e, db3)
                  \<and> tables db3 = tables db2)
              \<and> (\<forall>pr db3. price_step today data written db2 = (Inr pr, db3) \<longrightarrow>
                    t_building db3 = t_building db2 \<and> t_listing db3 = t_listing db2
                  \<and> (\<forall>e db4. event_step data mls written pr db3 = (Inl e, db4) \<longrightarrow>
                        create_or_update_listing today now data db = (Inl e, db4)
                      \<and> tables db4 = tables db3)
                  \<and> (\<forall>res db4. event_step data mls written pr db3 = (Inr res, db4) \<longrightarrow>
                        create_or_update_listing today now data db = (Inr res, db4)
                      \<and> (\<exists>ev. t_tracking_event db4 = t_tracking_event db3 @ [ev]
                               \<and> te_listing_id ev = fst written)
                      \<and> t_building db4 = t_building db3 \<and> t_listing db4 = t_listing db3
                      \<and> t_price_history db4 = t_price_history db3))))
       \<and> (\<forall>e db'. create_or_update_listing today now data db = (Inl e, db') \<longrightarrow>
            t_tracking_event db' = t_tracking_event db)"
proof (intro conjI allI impI)
  fix e db1
  assume a: "upsert_resolve data mls db = (Inl e, db1)"
  then show "create_or_update_listing today now data db = (Inl e, db1)"
    by (simp add: upsert_steps[OF m] and_then_def)
  from a show "tables db1 = tables db" by (rule fails_cleanD[OF fails_clean_upsert_resolve])
next
  fix found db1 bid
  assume "upsert_resolve data mls db = (Inr found, db1)" "snd found = Some bid"
  then show "bid \<in> set (map b_id (t_building db1))" by (rule upsert_resolve_found(2))
next
  fix found db1 e db2
  assume a: "upsert_resolve data mls db = (Inr found, db1)"
    and b: "listing_write now data mls found db1 = (Inl e, db2)"
  then show "create_or_update_listing today now data db = (Inl e, db2)"
    by (simp add: upsert_steps[OF m] and_then_def)
  from b show "tables db2 = tables db1" by (rule fails_cleanD[OF fails_clean_listing_write])
next
  fix found db1 written db2
  assume a: "upsert_resolve data mls db = (Inr found, db1)"
    and b: "listing_write now data mls found db1 = (Inr written, db2)"
  from listing_write_written[OF upsert_resolve_found(1)[OF a] b]
  show "\<exists>l \<in> set (t_listing db2).
          l_id l = fst written \<and> l_mls_number l = Some mls \<and> l_building_id l = snd found" .
  show "t_building db2 = t_building db1"
    by (rule keepsD[OF keeps_listing_write b]) simp_all
next
  fix found db1 written db2 e db3
  assume a: "upsert_resolve data mls db = (Inr found, db1)"
    and b: "listing_write now data mls found db1 = (Inr written, db2)"
    and c: "price_step today data written db2 = (Inl e, db3)"
  then show "create_or_update_listing today now data db = (Inl e, db3)"
    by (simp add: upsert_steps[OF m] and_then_def)
  from c show "tables db3 = tables db2" by (rule fails_cleanD[OF fails_clean_price_step])
next
  fix found db1 written db2 pr db3
  assume c: "price_step today data written db2 = (Inr pr, db3)"
  show "t_building db3 = t_building db2"
    by (rule keepsD[OF keeps_price_step c]) simp_all
  show "t_listing db3 = t_listing db2"
    by (rule keepsD[OF keeps_price_step c]) simp_all
next
  fix found db1 written db2 pr db3 e db4
  assume a: "upsert_resolve data mls db = (Inr found, db1)"
    and b: "listing_write now data mls found db1 = (Inr written, db2)"
    and c: "price_step today data written db2 = (Inr pr, db3)"
    and d: "event_step data mls written pr db3 = (Inl e, db4)"
  then show "create_or_update_listing today now data db = (Inl e, db4)"
    by (simp add: upsert_steps[OF m] and_then_def)
  from d show "tables db4 = tables db3" by (rule fails_cleanD[OF fails_clean_event_step])
next
  fix found db1 written db2 pr db3 res db4
  assume a: "upsert_resolve data mls db = (Inr found, db1)"
    and b: "listing_write now data mls found db1 = (Inr written, db2)"
    and c: "price_step today data written db2 = (Inr pr, db3)"
    and d: "event_step data mls written pr db3 = (Inr res, db4)"
  then show "create_or_update_listing today now data db = (Inr res, db4)"
    by (simp add: upsert_steps[OF m] and_then_def)
  from event_step_written[OF d]
  show "\<exists>ev. t_tracking_event db4 = t_tracking_event db3 @ [ev] \<and> te_listing_id ev = fst written"
    "t_building db4 = t_building db3" "t_listing db4 = t_listing db3"
    "t_price_history db4 = t_price_history db3"
    by simp_all
next
  fix e db'
  assume "create_or_update_listing today now data db = (Inl e, db')"
  then show "t_tracking_event db' = t_tracking_event db"
    by (rule upsert_raises_no_event[OF m])
qed

lemma fail_at_simps:
  "faults (fail_at 2) = [False, False, True]"
  "faults (fail_at 3) = [False, False, False, True]"
  "faults (fail_at 5) = [False, False, False, False, False, True]"
  "t_building (fail_at n) = []" "t_listing (fail_at n) = []"
  "t_price_history (fail_at n) = []" "t_tracking_event (fail_at n) = []"
  "t_neighborhood (fail_at n) = []"
  by (simp_all add: fail_at_def empty_db_def numeral_2_eq_2 numeral_3_eq_3 eval_nat_numeral)

lemma data_alpha_simps:
  "d_mls_number data_alpha = Some ''R1''"
  "d_building_name data_alpha = Some ''Alpha''"
  "d_address data_alpha = None" "d_neighborhood data_alpha = None"
  "d_price data_alpha = Some 500000" "d_listing_date data_alpha = None"
  "d_source_platform data_alpha = None"
  by (simp_all add: data_alpha_def data_r1_def)

text \<open>The steps of the upsert of a new listing with a building name, on an empty
  database: two lookups and the building insert; the listing insert; the lookup
  and the insert of the price step; the event insert.\<close>

lemma resolve_alpha:
  assumes "faults db = False # False # False # fs"
    and "t_building db = []" "t_listing db = []"
  shows "upsert_resolve data_alpha ''R1'' db =
           (Inr (None, Some 1),
            db\<lparr>faults := fs,
               t_building := [\<lparr>b_id = 1, b_name = ''Alpha'', b_address = ''Alpha'',
                               b_neighborhood_id = None, b_city = ''Victoria''\<rparr>]\<rparr>)"
  using assms
  by (simp add: upsert_resolve_def data_alpha_simps and_then_def execute_def execute_insert_def
      statement_def get_or_create_building_def if_given_def truthy_def ret_def
      select_listing_by_mls_def select_building_by_name_def insert_building_def or_else_def
      next_id_def Let_def)

lemma resolve_alpha_fails:
  assumes "faults db = [False, False, True]"
    and "t_building db = []" "t_listing db = []"
  shows "upsert_resolve data_alpha ''R1'' db
           = (Inl (DatabaseError ''database error''), db\<lparr>faults := []\<rparr>)"
  using assms
  by (simp add: upsert_resolve_def data_alpha_simps and_then_def execute_def execute_insert_def
      statement_def get_or_create_building_def if_given_def truthy_def ret_def
      select_listing_by_mls_def select_building_by_name_def Let_def)

lemma listing_write_new:
  assumes "faults db = False # fs" and "t_listing db = []"
  shows "\<exists>db2. listing_write 99 data_alpha ''R1'' (None, Some 1) db = (Inr (1, True), db2)
           \<and> faults db2 = fs \<and> map l_mls_number (t_listing db2) = [Some ''R1'']
           \<and> map l_id (t_listing db2) = [1]
           \<and> t_price_history db2 = t_price_history db
           \<and> t_tracking_event db2 = t_tracking_event db
           \<and> float_of db2 = float_of db"
  using assms
  by (simp add: listing_write_def and_then_def execute_insert_def statement_def ret_def
      insert_listing_def next_id_def Let_def)

lemma listing_write_fails:
  assumes "faults db = True # fs"
  shows "listing_write 99 data_alpha ''R1'' (None, Some 1) db
           = (Inl (DatabaseError ''database error''), db\<lparr>faults := fs\<rparr>)"
  using assms
  by (simp add: listing_write_def and_then_def execute_insert_def statement_def)

lemma price_step_fails:
  assumes "faults db = [False, True]" and "t_price_history db = []"
  shows "price_step 20 data_alpha (1, True) db
           = (Inl (DatabaseError ''database error''), db\<lparr>faults := []\<rparr>)"
  using assms
  by (simp add: price_step_def record_initial_def data_alpha_simps record_price_def
      and_then_def execute_def execute_insert_def statement_def select_price_id_def
      ret_def Let_def)

theorem upsert_writes_stay_committed_witness:
  "(fst (create_or_update_listing 20 99 data_alpha (fail_at 2))
      = Inl (DatabaseError ''database error'')
    \<and> t_building (snd (create_or_update_listing 20 99 data_alpha (fail_at 2))) = []
    \<and> t_listing (snd (create_or_update_listing 20 99 data_alpha (fail_at 2))) = [])
   \<and> (fst (create_or_update_listing 20 99 data_alpha (fail_at 3))
      = Inl (DatabaseError ''database error'')
    \<and> map b_name (t_building (snd (create_or_update_listing 20 99 data_alpha (fail_at 3))))
        = [''Alpha'']
    \<and> t_listing (snd (create_or_update_listing 20 99 data_alpha (fail_at 3))) = [])
   \<and> (fst (create_or_update_listing 20 99 data_alpha (fail_at 5))
      = Inl (DatabaseError ''database error'')
    \<and> map b_name (t_building (snd (create_or_update_listing 20 99 data_alpha (fail_at 5))))
        = [''Alpha'']
    \<and> map l_mls_number (t_listing (snd (create_or_update_listing 20 99 data_alpha (fail_at 5))))
        = [Some ''R1'']
    \<and> t_price_history (snd (create_or_update_listing 20 99 data_alpha (fail_at 5))) = []
    \<and> t_tracking_event (snd (create_or_update_listing 20 99 data_alpha (fail_at 5))) = [])"
proof -
  have m: "d_mls_number data_alpha = Some ''R1''" "''R1'' \<noteq> []"
    by (simp_all add: data_alpha_simps)
  note thm2 = upsert_writes_stay_committed[OF m, of "fail_at 2" 20 99]
  note thm3 = upsert_writes_stay_committed[OF m, of "fail_at 3" 20 99]
  note thm5 = upsert_writes_stay_committed[OF m, of "fail_at 5" 20 99]
  have r2: "upsert_resolve data_alpha ''R1'' (fail_at 2)
              = (Inl (DatabaseError ''database error''), fail_at 2\<lparr>faults := []\<rparr>)"
    by (rule resolve_alpha_fails) (simp_all add: fail_at_simps)
  from thm2 r2
  have c2: "create_or_update_listing 20 99 data_alpha (fail_at 2)
              = (Inl (DatabaseError ''database error''), fail_at 2\<lparr>faults := []\<rparr>)"
    by blast
  define A3 where "A3 = fail_at 3\<lparr>faults := [True],
               t_building := [\<lparr>b_id = 1, b_name = ''Alpha'', b_address = ''Alpha'',
                               b_neighborhood_id = None, b_city = ''Victoria''\<rparr>]\<rparr>"
  have r3: "upsert_resolve data_alpha ''R1'' (fail_at 3) = (Inr (None, Some 1), A3)"
    unfolding A3_def by (rule resolve_alpha) (simp_all add: fail_at_simps)
  have w3: "listing_write 99 data_alpha ''R1'' (None, Some 1) A3
              = (Inl (DatabaseError ''database error''), A3\<lparr>faults := []\<rparr>)"
    by (rule listing_write_fails) (simp add: A3_def)
  from thm3 r3 w3
  have c3: "create_or_update_listing 20 99 data_alpha (fail_at 3)
              = (Inl (DatabaseError ''database error''), A3\<lparr>faults := []\<rparr>)"
    by blast
  define A5 where "A5 = fail_at 5\<lparr>faults := [False, False, True],
               t_building := [\<lparr>b_id = 1, b_name = ''Alpha'', b_address = ''Alpha'',
                               b_neighborhood_id = None, b_city = ''Victoria''\<rparr>]\<rparr>"
  have r5: "upsert_resolve data_alpha ''R1'' (fail_at 5) = (Inr (None, Some 1), A5)"
    unfolding A5_def by (rule resolve_alpha) (simp_all add: fail_at_simps)
  from listing_write_new[of A5 "[False, True]"]
  obtain B5 where w5: "listing_write 99 data_alpha ''R1'' (None, Some 1) A5 = (Inr (1, True), B5)"
    and B5: "faults B5 = [False, True]" "map l_mls_number (t_listing B5) = [Some ''R1'']"
      "t_price_history B5 = []" "t_tracking_event B5 = []"
    by (auto simp: A5_def fail_at_simps)
  have p5: "price_step 20 data_alpha (1, True) B5
              = (Inl (DatabaseError ''database error''), B5\<lparr>faults := []\<rparr>)"
    by (rule price_step_fails) (simp_all add: B5)
  from thm5 r5 w5 p5
  have c5: "create_or_update_listing 20 99 data_alpha (fail_at 5)
              = (Inl (DatabaseError ''database error''), B5\<lparr>faults := []\<rparr>)"
    and b5: "t_building B5 = t_building A5"
    by blast+
  show ?thesis
    by (simp add: c2 c3 c5 b5 B5 A3_def A5_def fail_at_simps)
qed

text \<open>The claim as stated fails: on an empty database whose seventh statement
  fails, the upsert of a new listing with a building name and a price raises at
  its tracking-event insert, and the building, the listing and the price-history
  entry written before stay in the database.\<close>

theorem upsert_partial_commit_counterexample:
  "fst (create_or_update_listing 20 99 data_alpha failing_db)
     = Inl (DatabaseError ''database error'')
   \<and> map b_name (t_building (snd (create_or_update_listing 20 99 data_alpha failing_db)))
       = [''Alpha'']
   \<and> map l_mls_number (t_listing (snd (create_or_update_listing 20 99 data_alpha failing_db)))
       = [Some ''R1'']
   \<and> map ph_price (t_price_history (snd (create_or_update_listing 20 99 data_alpha failing_db)))
       = [500000]
   \<and> t_tracking_event (snd (create_or_update_listing 20 99 data_alpha failing_db)) = []
   \<and> t_building failing_db = [] \<and> t_listing failing_db = []
   \<and> t_price_history failing_db = []"
  by (simp add: create_or_update_listing_def data_alpha_def data_r1_def failing_db_def
      empty_db_def and_then_def execute_def execute_insert_def statement_def
      get_or_create_building_def if_given_def truthy_def ret_def select_listing_by_mls_def
      select_building_by_name_def insert_building_def insert_listing_def record_initial_def
      record_price_def select_price_id_def insert_price_history_def or_else_def next_id_def
      Let_def)

end
